theory Spec2Isabelle
  imports Complex_Main "HOL-Library.Monad_Syntax"
begin

section \<open>Python values used by the scanner\<close>

text \<open>
  The scanner passes its findings around as Python dictionaries with string keys whose
  values are strings, integers or \<open>None\<close>. A dictionary is modelled as an association list in
  insertion order, a Python \<open>str\<close> as a \<^typ>\<open>string\<close> holding the UTF-8 bytes of the text
  (the Japanese display texts of the source are written out byte by byte), and a Python
  \<open>int\<close> as an \<^typ>\<open>int\<close>.
\<close>

datatype pyval = PyNone | PyStr string | PyInt int

type_synonym pydict = "(string \<times> pyval) list"

definition dict_get :: "pydict \<Rightarrow> string \<Rightarrow> pyval \<Rightarrow> pyval" where
  \<comment> \<open>\<open>d.get(key, default)\<close>\<close>
  "dict_get d key dflt = (case map_of d key of None \<Rightarrow> dflt | Some v \<Rightarrow> v)"

fun str_nat :: "nat \<Rightarrow> string" where
  \<comment> \<open>\<open>str(n)\<close> for a non-negative integer: its decimal digits\<close>
  "str_nat n =
     (if n < 10 then [char_of (48 + n)]
      else str_nat (n div 10) @ [char_of (48 + n mod 10)])"

declare str_nat.simps [simp del]


definition lower_char :: "char \<Rightarrow> char" where
  "lower_char c =
     (let n = of_char c :: nat in if 65 \<le> n \<and> n \<le> 90 then char_of (n + 32) else c)"

definition lower :: "string \<Rightarrow> string" where
  \<comment> \<open>\<open>s.lower()\<close> on ASCII text: the letters A to Z are mapped to a to z, every other
      byte is kept (HTTP header names, the only strings lowered here, are ASCII tokens)\<close>
  "lower s = map lower_char s"

fun dict_set :: "pydict \<Rightarrow> string \<Rightarrow> pyval \<Rightarrow> pydict" where
  \<comment> \<open>\<open>d[key] = value\<close>: the value of an old key is replaced where it stands, a new key
      goes last\<close>
  "dict_set [] key v = [(key, v)]"
| "dict_set ((k, x) # d) key v = (if k = key then (k, v) # d else (k, x) # dict_set d key v)"

definition py_round :: "rat \<Rightarrow> int" where
  \<comment> \<open>\<open>round(x)\<close>: to the nearest integer, a tie to the even one\<close>
  "py_round x =
     (let f = \<lfloor>x\<rfloor>; d = x - of_int f
      in if d < 1 / 2 then f else if d > 1 / 2 then f + 1 else if even f then f else f + 1)"

section \<open>vuln\_scanner.py: the vulnerability checks\<close>

subsection \<open>Security header audit\<close>

record header_info =
  info_name :: string
  info_description :: string
  info_risk :: string

text \<open>
  The table \<open>SECURITY_HEADERS\<close>, in the order of the source (a Python dictionary keeps
  insertion order). The descriptions are Japanese sentences saying that the header is
  not set and what that risks.
\<close>

definition SECURITY_HEADERS :: "(string \<times> header_info) list" where
  "SECURITY_HEADERS = [
     (''Strict-Transport-Security'',
      \<lparr>info_name = ''HSTS'',
       info_description =
         ''HTTP Strict Transport Security '' @ [CHR 0xE3, CHR 0x81, CHR 0x8C, CHR 0xE6,
         CHR 0x9C, CHR 0xAA, CHR 0xE8, CHR 0xA8, CHR 0xAD, CHR 0xE5, CHR 0xAE, CHR 0x9A,
         CHR 0xE3, CHR 0x80, CHR 0x82, CHR 0xE4, CHR 0xB8, CHR 0xAD, CHR 0xE9, CHR 0x96,
         CHR 0x93, CHR 0xE8, CHR 0x80, CHR 0x85, CHR 0xE6, CHR 0x94, CHR 0xBB, CHR 0xE6,
         CHR 0x92, CHR 0x83, CHR 0xE3, CHR 0x81, CHR 0xAE, CHR 0xE3, CHR 0x83, CHR 0xAA,
         CHR 0xE3, CHR 0x82, CHR 0xB9, CHR 0xE3, CHR 0x82, CHR 0xAF, CHR 0xE3, CHR 0x81,
         CHR 0x82, CHR 0xE3, CHR 0x82, CHR 0x8A, CHR 0xE3, CHR 0x80, CHR 0x82],
       info_risk = ''medium''\<rparr>),
     (''X-Frame-Options'',
      \<lparr>info_name = ''X-Frame-Options'',
       info_description =
         [CHR 0xE3, CHR 0x82, CHR 0xAF, CHR 0xE3, CHR 0x83, CHR 0xAA, CHR 0xE3, CHR 0x83,
         CHR 0x83, CHR 0xE3, CHR 0x82, CHR 0xAF, CHR 0xE3, CHR 0x82, CHR 0xB8, CHR 0xE3,
         CHR 0x83, CHR 0xA3, CHR 0xE3, CHR 0x83, CHR 0x83, CHR 0xE3, CHR 0x82, CHR 0xAD,
         CHR 0xE3, CHR 0x83, CHR 0xB3, CHR 0xE3, CHR 0x82, CHR 0xB0, CHR 0xE5, CHR 0xAF,
         CHR 0xBE, CHR 0xE7, CHR 0xAD, CHR 0x96, CHR 0xE3, CHR 0x83, CHR 0x98, CHR 0xE3,
         CHR 0x83, CHR 0x83, CHR 0xE3, CHR 0x83, CHR 0x80, CHR 0xE3, CHR 0x83, CHR 0xBC,
         CHR 0xE3, CHR 0x81, CHR 0x8C, CHR 0xE6, CHR 0x9C, CHR 0xAA, CHR 0xE8, CHR 0xA8,
         CHR 0xAD, CHR 0xE5, CHR 0xAE, CHR 0x9A, CHR 0xE3, CHR 0x80, CHR 0x82],
       info_risk = ''medium''\<rparr>),
     (''X-Content-Type-Options'',
      \<lparr>info_name = ''X-Content-Type-Options'',
       info_description =
         ''MIME'' @ [CHR 0xE3, CHR 0x82, CHR 0xB9, CHR 0xE3, CHR 0x83, CHR 0x8B, CHR 0xE3,
         CHR 0x83, CHR 0x83, CHR 0xE3, CHR 0x83, CHR 0x95, CHR 0xE3, CHR 0x82, CHR 0xA3,
         CHR 0xE3, CHR 0x83, CHR 0xB3, CHR 0xE3, CHR 0x82, CHR 0xB0, CHR 0xE5, CHR 0xAF,
         CHR 0xBE, CHR 0xE7, CHR 0xAD, CHR 0x96, CHR 0xE3, CHR 0x83, CHR 0x98, CHR 0xE3,
         CHR 0x83, CHR 0x83, CHR 0xE3, CHR 0x83, CHR 0x80, CHR 0xE3, CHR 0x83, CHR 0xBC,
         CHR 0xE3, CHR 0x81, CHR 0x8C, CHR 0xE6, CHR 0x9C, CHR 0xAA, CHR 0xE8, CHR 0xA8,
         CHR 0xAD, CHR 0xE5, CHR 0xAE, CHR 0x9A, CHR 0xE3, CHR 0x80, CHR 0x82],
       info_risk = ''low''\<rparr>),
     (''Content-Security-Policy'',
      \<lparr>info_name = ''CSP'',
       info_description =
         ''Content Security Policy '' @ [CHR 0xE3, CHR 0x81, CHR 0x8C, CHR 0xE6, CHR 0x9C,
         CHR 0xAA, CHR 0xE8, CHR 0xA8, CHR 0xAD, CHR 0xE5, CHR 0xAE, CHR 0x9A, CHR 0xE3,
         CHR 0x80, CHR 0x82] @ ''XSS'' @ [CHR 0xE6, CHR 0x94, CHR 0xBB, CHR 0xE6, CHR 0x92,
         CHR 0x83, CHR 0xE3, CHR 0x81, CHR 0xAE, CHR 0xE3, CHR 0x83, CHR 0xAA, CHR 0xE3,
         CHR 0x82, CHR 0xB9, CHR 0xE3, CHR 0x82, CHR 0xAF, CHR 0xE3, CHR 0x81, CHR 0x8C,
         CHR 0xE5, CHR 0xA2, CHR 0x97, CHR 0xE5, CHR 0xA4, CHR 0xA7, CHR 0xE3, CHR 0x80,
         CHR 0x82],
       info_risk = ''medium''\<rparr>),
     (''X-XSS-Protection'',
      \<lparr>info_name = ''X-XSS-Protection'',
       info_description =
         ''XSS'' @ [CHR 0xE4, CHR 0xBF, CHR 0x9D, CHR 0xE8, CHR 0xAD, CHR 0xB7, CHR 0xE3,
         CHR 0x83, CHR 0x98, CHR 0xE3, CHR 0x83, CHR 0x83, CHR 0xE3, CHR 0x83, CHR 0x80,
         CHR 0xE3, CHR 0x83, CHR 0xBC, CHR 0xE3, CHR 0x81, CHR 0x8C, CHR 0xE6, CHR 0x9C,
         CHR 0xAA, CHR 0xE8, CHR 0xA8, CHR 0xAD, CHR 0xE5, CHR 0xAE, CHR 0x9A, CHR 0xE3,
         CHR 0x80, CHR 0x82],
       info_risk = ''low''\<rparr>),
     (''Referrer-Policy'',
      \<lparr>info_name = ''Referrer-Policy'',
       info_description =
         [CHR 0xE3, CHR 0x83, CHR 0xAA, CHR 0xE3, CHR 0x83, CHR 0x95, CHR 0xE3, CHR 0x82,
         CHR 0xA1, CHR 0xE3, CHR 0x83, CHR 0xA9, CHR 0xE3, CHR 0x83, CHR 0xBC, CHR 0xE3,
         CHR 0x83, CHR 0x9D, CHR 0xE3, CHR 0x83, CHR 0xAA, CHR 0xE3, CHR 0x82, CHR 0xB7,
         CHR 0xE3, CHR 0x83, CHR 0xBC, CHR 0xE3, CHR 0x81, CHR 0x8C, CHR 0xE6, CHR 0x9C,
         CHR 0xAA, CHR 0xE8, CHR 0xA8, CHR 0xAD, CHR 0xE5, CHR 0xAE, CHR 0x9A, CHR 0xE3,
         CHR 0x80, CHR 0x82, CHR 0xE6, CHR 0x83, CHR 0x85, CHR 0xE5, CHR 0xA0, CHR 0xB1,
         CHR 0xE6, CHR 0xBC, CHR 0x8F, CHR 0xE6, CHR 0xB4, CHR 0xA9, CHR 0xE3, CHR 0x81,
         CHR 0xAE, CHR 0xE3, CHR 0x83, CHR 0xAA, CHR 0xE3, CHR 0x82, CHR 0xB9, CHR 0xE3,
         CHR 0x82, CHR 0xAF, CHR 0xE3, CHR 0x80, CHR 0x82],
       info_risk = ''low''\<rparr>),
     (''Permissions-Policy'',
      \<lparr>info_name = ''Permissions-Policy'',
       info_description =
         [CHR 0xE3, CHR 0x83, CHR 0x91, CHR 0xE3, CHR 0x83, CHR 0xBC, CHR 0xE3, CHR 0x83,
         CHR 0x9F, CHR 0xE3, CHR 0x83, CHR 0x83, CHR 0xE3, CHR 0x82, CHR 0xB7, CHR 0xE3,
         CHR 0x83, CHR 0xA7, CHR 0xE3, CHR 0x83, CHR 0xB3, CHR 0xE3, CHR 0x83, CHR 0x9D,
         CHR 0xE3, CHR 0x83, CHR 0xAA, CHR 0xE3, CHR 0x82, CHR 0xB7, CHR 0xE3, CHR 0x83,
         CHR 0xBC, CHR 0xE3, CHR 0x81, CHR 0x8C, CHR 0xE6, CHR 0x9C, CHR 0xAA, CHR 0xE8,
         CHR 0xA8, CHR 0xAD, CHR 0xE5, CHR 0xAE, CHR 0x9A, CHR 0xE3, CHR 0x80, CHR 0x82],
       info_risk = ''low''\<rparr>)]"

text \<open>
  \<open>check_security_headers\<close>: the loop over the table appends one finding for every
  tracked header whose lower-cased name is not among the lower-cased keys of the
  response headers.
\<close>

definition missing_header_finding :: "header_info \<Rightarrow> pydict" where
  "missing_header_finding info =
     [(''type'', PyStr ''missing_header''),
      (''name'', PyStr (info_name info)),
      (''description'', PyStr (info_description info)),
      (''risk'', PyStr (info_risk info))]"

fun security_header_loop ::
  "(string \<times> header_info) list \<Rightarrow> (string \<times> string) list \<Rightarrow> pydict list \<Rightarrow> pydict list"
where
  "security_header_loop [] headers findings = findings"
| "security_header_loop ((header_name, info) # rest) headers findings =
     security_header_loop rest headers
       (if lower header_name \<notin> set (map (\<lambda>(k, v). lower k) headers)
        then findings @ [missing_header_finding info]
        else findings)"

definition check_security_headers :: "(string \<times> string) list \<Rightarrow> pydict list" where
  "check_security_headers headers = security_header_loop SECURITY_HEADERS headers []"

subsection \<open>Exposed paths\<close>






subsection \<open>Summary\<close>

definition RISK_LEVELS :: "string list" where
  \<comment> \<open>the order in which \<open>summarize_vulns\<close> looks for the highest level\<close>
  "RISK_LEVELS = [''critical'', ''high'', ''medium'', ''low'', ''info'']"

definition initial_risk_counts :: "string \<rightharpoonup> nat" where
  "initial_risk_counts =
     [''critical'' \<mapsto> 0, ''high'' \<mapsto> 0, ''medium'' \<mapsto> 0, ''low'' \<mapsto> 0, ''info'' \<mapsto> 0]"

definition finding_risk :: "pydict \<Rightarrow> pyval" where
  \<comment> \<open>\<open>f.get("risk", "info")\<close>\<close>
  "finding_risk f = dict_get f ''risk'' (PyStr ''info'')"

definition count_risk :: "pydict \<Rightarrow> (string \<rightharpoonup> nat) \<Rightarrow> (string \<rightharpoonup> nat)" where
  \<comment> \<open>one round of the counting loop: \<open>if risk in risk_counts: risk_counts[risk] += 1\<close>\<close>
  "count_risk f counts =
     (case finding_risk f of
        PyStr risk \<Rightarrow>
          (case counts risk of
             Some n \<Rightarrow> counts(risk \<mapsto> n + 1)
           | None \<Rightarrow> counts)
      | PyInt i \<Rightarrow> counts
      | PyNone \<Rightarrow> counts)"

fun highest_level :: "(string \<rightharpoonup> nat) \<Rightarrow> string list \<Rightarrow> string \<Rightarrow> string" where
  \<comment> \<open>the loop over the levels, leaving at the first level with a positive count; the
      five levels are keys of the counts from the start and no key is ever removed, so
      the lookup \<open>risk_counts[level]\<close> never misses\<close>
  "highest_level counts [] max_risk = max_risk"
| "highest_level counts (level # levels) max_risk =
     (case counts level of
        Some n \<Rightarrow> if n > 0 then level else highest_level counts levels max_risk
      | None \<Rightarrow> highest_level counts levels max_risk)"

record vuln_summary =
  total :: nat
  risk_counts :: "string \<rightharpoonup> nat"
  max_risk :: string

definition summarize_vulns :: "pydict list \<Rightarrow> vuln_summary" where
  "summarize_vulns findings =
     (let counts = fold count_risk findings initial_risk_counts
      in \<lparr>total = length findings,
          risk_counts = counts,
          max_risk = highest_level counts RISK_LEVELS ''info''\<rparr>)"

text \<open>
  The order of the risk levels that the specification gives,
  critical \<open>>\<close> high \<open>>\<close> medium \<open>>\<close> low \<open>>\<close> info, as a rank. It is used only to state
  what ``highest'' means; the code never computes it.
\<close>

definition risk_rank :: "string \<Rightarrow> nat" where
  "risk_rank r =
     (if r = ''critical'' then 4 else if r = ''high'' then 3
      else if r = ''medium'' then 2 else if r = ''low'' then 1 else 0)"

subsection \<open>A sample server for the exposed-path check\<close>


section \<open>The standard library's IPv4 addresses and networks\<close>

text \<open>
  \<open>ip_generator.py\<close> and \<open>parse_target_ips\<close> rest on Python's \<open>ipaddress\<close> module. This
  section models the part of it they call, as CPython 3.11 behaves: an address is its
  32-bit integer, a network is its network address and prefix length.
\<close>

definition is_ascii_digit :: "char \<Rightarrow> bool" where
  "is_ascii_digit c \<longleftrightarrow> (48::nat) \<le> of_char c \<and> of_char c \<le> (57::nat)"

definition int_of_digits :: "string \<Rightarrow> nat" where
  \<comment> \<open>\<open>int(s)\<close> for a string of ASCII digits\<close>
  "int_of_digits s = foldl (\<lambda>a c. 10 * a + (of_char c - 48)) 0 s"

fun split_acc :: "char \<Rightarrow> string \<Rightarrow> string \<Rightarrow> string list" where
  "split_acc sep cur [] = [cur]"
| "split_acc sep cur (c # cs) =
     (if c = sep then cur # split_acc sep [] cs else split_acc sep (cur @ [c]) cs)"

definition split_on :: "char \<Rightarrow> string \<Rightarrow> string list" where
  \<comment> \<open>\<open>s.split(sep)\<close> for a separator of one character\<close>
  "split_on sep s = split_acc sep [] s"

definition parse_octet :: "string \<Rightarrow> nat option" where
  \<comment> \<open>\<open>_parse_octet\<close>: one to three ASCII digits, no leading zero, at most 255\<close>
  "parse_octet octet_str =
     (if octet_str = [] then None
      else if \<not> list_all is_ascii_digit octet_str then None
      else if length octet_str > 3 then None
      else if octet_str \<noteq> ''0'' \<and> hd octet_str = CHR ''0'' then None
      else if int_of_digits octet_str > 255 then None
      else Some (int_of_digits octet_str))"

definition ip_int_from_string :: "string \<Rightarrow> nat option" where
  \<comment> \<open>\<open>_ip_int_from_string\<close>: four octets separated by dots, most significant first\<close>
  "ip_int_from_string ip_str =
     (if ip_str = [] then None
      else case map parse_octet (split_on CHR ''.'' ip_str) of
             [Some a, Some b, Some c, Some d] \<Rightarrow> Some (((a * 256 + b) * 256 + c) * 256 + d)
           | _ \<Rightarrow> None)"

definition IPv4Address :: "string \<Rightarrow> nat option" where
  \<comment> \<open>\<open>ipaddress.IPv4Address(s)\<close> for a string; \<open>None\<close> where it raises \<open>AddressValueError\<close>\<close>
  "IPv4Address address =
     (if CHR ''/'' \<in> set address then None else ip_int_from_string address)"

definition str_ipv4 :: "nat \<Rightarrow> string" where
  \<comment> \<open>\<open>str(IPv4Address(n))\<close>: the dotted quad\<close>
  "str_ipv4 n =
     str_nat (n div 16777216 mod 256) @ ''.'' @ str_nat (n div 65536 mod 256) @ ''.'' @
     str_nat (n div 256 mod 256) @ ''.'' @ str_nat (n mod 256)"

definition netmask_int :: "nat \<Rightarrow> nat" where
  \<comment> \<open>\<open>_ip_int_from_prefix\<close>: the mask with \<open>p\<close> leading ones\<close>
  "netmask_int p = 2 ^ 32 - 2 ^ (32 - p)"

definition prefix_from_prefix_string :: "string \<Rightarrow> nat option" where
  \<comment> \<open>\<open>_prefix_from_prefix_string\<close>: ASCII digits (\<open>int\<close> refuses more than 4300 of
      them) naming a length from 0 to 32\<close>
  "prefix_from_prefix_string prefixlen_str =
     (if prefixlen_str \<noteq> [] \<and> list_all is_ascii_digit prefixlen_str
         \<and> length prefixlen_str \<le> 4300 \<and> int_of_digits prefixlen_str \<le> 32
      then Some (int_of_digits prefixlen_str) else None)"

definition prefix_from_ip_int :: "nat \<Rightarrow> nat option" where
  \<comment> \<open>\<open>_prefix_from_ip_int\<close>: the length \<open>p\<close> when the integer is \<open>p\<close> ones followed by
      zeros, \<open>None\<close> when it mixes zeros and ones\<close>
  "prefix_from_ip_int ip_int = find (\<lambda>p. ip_int = netmask_int p) [0..<33]"

definition prefix_from_ip_string :: "string \<Rightarrow> nat option" where
  \<comment> \<open>\<open>_prefix_from_ip_string\<close>: a dotted-quad netmask, or else a dotted-quad hostmask
      (the netmask with its bits inverted)\<close>
  "prefix_from_ip_string ip_str =
     (case ip_int_from_string ip_str of
        None \<Rightarrow> None
      | Some ip_int \<Rightarrow>
          (case prefix_from_ip_int ip_int of
             Some p \<Rightarrow> Some p
           | None \<Rightarrow> prefix_from_ip_int (2 ^ 32 - 1 - ip_int)))"

definition make_netmask :: "string \<Rightarrow> nat option" where
  \<comment> \<open>\<open>_make_netmask\<close> on the text after the slash\<close>
  "make_netmask arg =
     (case prefix_from_prefix_string arg of
        Some p \<Rightarrow> Some p
      | None \<Rightarrow> prefix_from_ip_string arg)"

record ipv4_network =
  network_address :: nat
  prefixlen :: nat

definition IPv4Network :: "string \<Rightarrow> bool \<Rightarrow> ipv4_network option" where
  \<comment> \<open>\<open>ipaddress.IPv4Network(address, strict)\<close>; \<open>None\<close> where it raises
      \<open>AddressValueError\<close> or another \<open>ValueError\<close>. Clearing the host bits,
      \<open>packed & netmask\<close>, is written with division: it zeroes the low \<open>32 - p\<close> bits.\<close>
  "IPv4Network address strict =
     (case split_on CHR ''/'' address of
        [addr_str] \<Rightarrow>
          (case IPv4Address addr_str of
             None \<Rightarrow> None
           | Some packed \<Rightarrow> Some \<lparr>network_address = packed, prefixlen = 32\<rparr>)
      | [addr_str, mask_str] \<Rightarrow>
          (case IPv4Address addr_str of
             None \<Rightarrow> None
           | Some packed \<Rightarrow>
               (case make_netmask mask_str of
                  None \<Rightarrow> None
                | Some p \<Rightarrow>
                    if packed div 2 ^ (32 - p) * 2 ^ (32 - p) \<noteq> packed then
                      (if strict then None
                       else Some \<lparr>network_address = packed div 2 ^ (32 - p) * 2 ^ (32 - p),
                                  prefixlen = p\<rparr>)
                    else Some \<lparr>network_address = packed, prefixlen = p\<rparr>))
      | _ \<Rightarrow> None)"

definition broadcast_address :: "ipv4_network \<Rightarrow> nat" where
  \<comment> \<open>\<open>network_address | hostmask\<close>: the last address of the block\<close>
  "broadcast_address network = network_address network + 2 ^ (32 - prefixlen network) - 1"

definition network_hosts :: "ipv4_network \<Rightarrow> nat list" where
  \<comment> \<open>\<open>network.hosts()\<close>: the addresses between the network and the broadcast address;
      both of them too for a /31; the single address for a /32\<close>
  "network_hosts network =
     (if prefixlen network = 31 then
        [network_address network ..< broadcast_address network + 1]
      else if prefixlen network = 32 then [network_address network]
      else [network_address network + 1 ..< broadcast_address network])"

definition in_network :: "nat \<Rightarrow> ipv4_network \<Rightarrow> bool" where
  \<comment> \<open>\<open>ip in network\<close>, which tests \<open>ip & netmask == network_address\<close>\<close>
  "in_network ip network \<longleftrightarrow>
     ip div 2 ^ (32 - prefixlen network) * 2 ^ (32 - prefixlen network)
       = network_address network"

section \<open>ip\_generator.py: random global addresses\<close>

definition EXCLUDED_NETWORKS :: "ipv4_network list" where
  \<comment> \<open>the networks of the source, built as there from their text (strictly: a text
      with host bits set would raise when the module is loaded)\<close>
  "EXCLUDED_NETWORKS =
     List.map_filter (\<lambda>s. IPv4Network s True)
       [''0.0.0.0/8'',
        ''10.0.0.0/8'',
        ''100.64.0.0/10'',
        ''127.0.0.0/8'',
        ''169.254.0.0/16'',
        ''172.16.0.0/12'',
        ''192.0.0.0/24'',
        ''192.0.2.0/24'',
        ''192.88.99.0/24'',
        ''192.168.0.0/16'',
        ''198.18.0.0/15'',
        ''198.51.100.0/24'',
        ''203.0.113.0/24'',
        ''224.0.0.0/4'',
        ''240.0.0.0/4'',
        ''255.255.255.255/32'']"

fun excluded_loop :: "ipv4_network list \<Rightarrow> nat \<Rightarrow> bool" where
  "excluded_loop [] ip = True"
| "excluded_loop (network # networks) ip =
     (if in_network ip network then False else excluded_loop networks ip)"

definition is_valid_global_ip :: "nat \<Rightarrow> bool" where
  "is_valid_global_ip ip = excluded_loop EXCLUDED_NETWORKS ip"

text \<open>
  \<open>generate_random_ip\<close> draws until a draw passes. The random source is a parameter:
  \<open>randint k\<close> is what the \<open>k\<close>-th call of \<open>random.randint(1, 0xFFFFFFFE)\<close> returns. The
  loop has no bound, so the function is partial: \<open>None\<close> is a run that never returns.
  It also returns how many draws have been used, for the caller's next call.
\<close>

partial_function (option) generate_random_ip :: "(nat \<Rightarrow> nat) \<Rightarrow> nat \<Rightarrow> (string \<times> nat) option"
where
  "generate_random_ip randint k =
     (if is_valid_global_ip (randint k) then Some (str_ipv4 (randint k), k + 1)
      else generate_random_ip randint (k + 1))"

text \<open>
  A sample random source: the first draw is 10.0.0.5 (private), the second 192.168.0.1
  (private), every later one 8.8.8.8.
\<close>

definition sample_randint :: "nat \<Rightarrow> nat" where
  "sample_randint k = (if k = 0 then 167772165 else if k = 1 then 3232235777 else 134744072)"

section \<open>scanner.py: resolving the target text\<close>

definition is_space :: "char \<Rightarrow> bool" where
  \<comment> \<open>the ASCII characters that \<open>str.strip()\<close> removes: tab, line feed, vertical tab,
      form feed, carriage return, the four separators 28 to 31, and the space
      (whitespace beyond ASCII, which \<open>strip\<close> removes too, is not modelled)\<close>
  "is_space c \<longleftrightarrow> (let n = of_char c :: nat in (9 \<le> n \<and> n \<le> 13) \<or> (28 \<le> n \<and> n \<le> 32))"

definition strip :: "string \<Rightarrow> string" where
  "strip s = rev (dropWhile is_space (rev (dropWhile is_space s)))"

definition startswith :: "string \<Rightarrow> string \<Rightarrow> bool" where
  \<comment> \<open>\<open>s.startswith(p)\<close>\<close>
  "startswith s p \<longleftrightarrow> take (length p) s = p"

definition is_separator :: "char \<Rightarrow> bool" where
  "is_separator c \<longleftrightarrow> c = CHR '','' \<or> c = CHR 0x0A"

function re_split_acc :: "string \<Rightarrow> string \<Rightarrow> string list" where
  "re_split_acc cur [] = [cur]"
| "re_split_acc cur (c # cs) =
     (if is_separator c then cur # re_split_acc [] (dropWhile is_separator cs)
      else re_split_acc (cur @ [c]) cs)"
  by pat_completeness auto
termination
  by (relation "measure (\<lambda>(cur, s). length s)")
     (auto simp: length_dropWhile_le less_Suc_eq_le)

definition re_split :: "string \<Rightarrow> string list" where
  \<comment> \<open>\<open>re.split(r'[,\n]+', s)\<close>: the pieces between maximal runs of commas and line
      feeds; a leading or trailing run leaves an empty piece\<close>
  "re_split s = re_split_acc [] s"

definition is_alnum :: "char \<Rightarrow> bool" where
  \<comment> \<open>the class \<open>[a-zA-Z0-9]\<close>\<close>
  "is_alnum c \<longleftrightarrow>
     (let n = of_char c :: nat in
      (97 \<le> n \<and> n \<le> 122) \<or> (65 \<le> n \<and> n \<le> 90) \<or> (48 \<le> n \<and> n \<le> 57))"

definition is_label :: "string \<Rightarrow> bool" where
  \<comment> \<open>\<open>[a-zA-Z0-9]([a-zA-Z0-9\-]*[a-zA-Z0-9])?\<close>: letters, digits and hyphens, not
      empty, with no hyphen first or last\<close>
  "is_label l \<longleftrightarrow>
     l \<noteq> [] \<and> list_all (\<lambda>c. is_alnum c \<or> c = CHR ''-'') l \<and> is_alnum (hd l) \<and> is_alnum (last l)"

definition is_domain_name :: "string \<Rightarrow> bool" where
  \<comment> \<open>the pattern of the source, anchored at both ends: two or more labels separated
      by dots\<close>
  "is_domain_name hostname \<longleftrightarrow>
     (let labels = split_on CHR ''.'' hostname in
      length labels \<ge> 2 \<and> list_all is_label labels)"

text \<open>
  The outside world of \<open>parse_target_ips\<close>: \<open>urlparse(part).hostname\<close> (\<open>None\<close> when
  the URL has no host name or \<open>urlparse\<close> raises) and \<open>socket.gethostbyname\<close>, which
  answers with the address as a string, fails with \<open>gaierror\<close>, or raises something else
  (a \<open>UnicodeError\<close> for a label of more than 63 characters, for one).
\<close>

datatype dns_outcome = Resolved string | GaiError | OtherError

record resolver =
  url_hostname :: "string \<Rightarrow> string option"
  gethostbyname :: "string \<Rightarrow> dns_outcome"

type_synonym dns_cache = "string \<rightharpoonup> string option"

definition resolve_hostname ::
  "resolver \<Rightarrow> string \<Rightarrow> dns_cache \<Rightarrow> (string option \<times> dns_cache) option"
where
  \<comment> \<open>\<open>_resolve_hostname\<close>: the cached answer, or a lookup whose answer (an address, or
      \<open>None\<close> after \<open>gaierror\<close>) is cached. The outer \<open>None\<close> is an exception other than
      \<open>gaierror\<close>, which leaves the function and the cache as it was.\<close>
  "resolve_hostname env hostname cache =
     (case cache hostname of
        Some answer \<Rightarrow> Some (answer, cache)
      | None \<Rightarrow>
          (case gethostbyname env hostname of
             Resolved ip \<Rightarrow> Some (Some ip, cache(hostname \<mapsto> Some ip))
           | GaiError \<Rightarrow> Some (None, cache(hostname \<mapsto> None))
           | OtherError \<Rightarrow> None))"

definition append_resolved :: "string option \<Rightarrow> string list \<Rightarrow> string list" where
  \<comment> \<open>\<open>if resolved_ip: ips.append(resolved_ip)\<close>\<close>
  "append_resolved resolved_ip ips =
     (case resolved_ip of
        Some ip \<Rightarrow> if ip \<noteq> [] then ips @ [ip] else ips
      | None \<Rightarrow> ips)"

definition parse_part ::
  "resolver \<Rightarrow> string \<Rightarrow> string list \<times> dns_cache \<Rightarrow> (string list \<times> dns_cache) option"
where
  \<comment> \<open>one round of the loop for a stripped, non-empty part; \<open>None\<close> is an exception that
      leaves \<open>parse_target_ips\<close>\<close>
  "parse_part env part state =
     (case state of (ips, cache) \<Rightarrow>
      if startswith part ''http://'' \<or> startswith part ''https://'' then
        (case url_hostname env part of
           None \<Rightarrow> Some (ips, cache)
         | Some hostname \<Rightarrow>
             if hostname = [] then Some (ips, cache)
             else
               (case resolve_hostname env hostname cache of
                  None \<Rightarrow> Some (ips, cache)
                | Some (resolved_ip, cache') \<Rightarrow> Some (append_resolved resolved_ip ips, cache')))
      else
        (case (if CHR ''/'' \<in> set part then IPv4Network part False else None) of
           Some network \<Rightarrow>
             if prefixlen network < 16 then Some (ips, cache)
             else Some (ips @ map str_ipv4 (network_hosts network), cache)
         | None \<Rightarrow>
             (case IPv4Address part of
                Some ip \<Rightarrow> Some (ips @ [str_ipv4 ip], cache)
              | None \<Rightarrow>
                  (let hostname =
                         (if CHR '':'' \<in> set part
                          then (case split_on CHR '':'' part of [] \<Rightarrow> part | h # rest \<Rightarrow> h)
                          else part)
                   in if is_domain_name hostname then
                        (case resolve_hostname env hostname cache of
                           None \<Rightarrow> None
                         | Some (resolved_ip, cache') \<Rightarrow>
                             Some (append_resolved resolved_ip ips, cache'))
                      else Some (ips, cache)))))"

fun parse_loop ::
  "resolver \<Rightarrow> string list \<Rightarrow> string list \<times> dns_cache \<Rightarrow> string list option"
where
  "parse_loop env [] state = Some (fst state)"
| "parse_loop env (part # parts) state =
     (if strip part = [] then parse_loop env parts state
      else case parse_part env (strip part) state of
             None \<Rightarrow> None
           | Some state' \<Rightarrow> parse_loop env parts state')"

definition parse_target_ips :: "resolver \<Rightarrow> string \<Rightarrow> string list option" where
  \<comment> \<open>the list of addresses, or \<open>None\<close> when an exception leaves the function\<close>
  "parse_target_ips env target_input =
     parse_loop env (re_split (strip target_input)) ([], Map.empty)"

text \<open>
  A sample resolver: it knows the host of two URLs and resolves \<open>example.com\<close> and the
  literal \<open>8.8.8.8\<close>.
\<close>

definition sample_resolver :: resolver where
  "sample_resolver =
     \<lparr>url_hostname = (\<lambda>url.
         if url = ''http://8.8.8.8/'' then Some ''8.8.8.8''
         else if url = ''https://example.com/login'' then Some ''example.com''
         else None),
      gethostbyname = (\<lambda>name.
         if name = ''8.8.8.8'' then Resolved ''8.8.8.8''
         else if name = ''example.com'' then Resolved ''93.184.216.34''
         else GaiError)\<rparr>"

section \<open>The scan state, the stores and the outside world\<close>

datatype scan_mode = RandomMode | TargetMode

record scan_state =
  running :: bool
  total_scanned :: nat
  total_found :: nat
  current_rate :: int
  start_time :: "rat option"
  mode :: scan_mode
  target_total :: nat
  target_done :: nat

definition reset_scan_state :: "scan_state \<Rightarrow> scan_state" where
  "reset_scan_state s =
     s\<lparr>running := False, total_scanned := 0, total_found := 0, current_rate := 0,
       start_time := None, mode := RandomMode, target_total := 0, target_done := 0\<rparr>"

text \<open>
  The two shapes of message handed to \<open>notify_ws\<close>. Only the status messages of the
  target worker carry \<open>target_total\<close> and \<open>target_done\<close>.
\<close>

record status_data =
  st_running :: bool
  st_total_scanned :: nat
  st_total_found :: nat
  st_current_rate :: int
  st_mode :: scan_mode
  st_target :: "(nat \<times> nat) option"

datatype event = ResultEvent pydict | StatusEvent status_data

text \<open>
  What \<open>asyncio.create_task\<close> was called with: the worker and its arguments.
\<close>

datatype worker_task =
    RandomWorker "int list" bool bool
  | TargetWorker "string list" "int list" bool bool

text \<open>
  The history is not a variable of the program. It records, in order, what happened, so
  that claims about the order of things can be stated: a batch handed to
  \<open>asyncio.gather\<close>, a probe of the batch finishing (with the value the \<open>running\<close> flag
  had at that moment), the return of \<open>gather\<close>, a row inserted, a message handed to
  \<open>notify_ws\<close>, and \<open>stop_scan\<close> clearing the flag.
\<close>

datatype history_item =
    Dispatched "(string \<times> int) list"
  | Completed string int bool
  | Joined
  | Inserted int
  | Published event
  | StopAccepted

record world =
  scan :: scan_state
  spawned :: "worker_task list"
  rows :: "(int \<times> pydict) list"
  next_id :: int
  awaits :: nat
  draws :: nat
  time_reads :: nat
  history :: "history_item list"

text \<open>
  The program runs on one event loop: other code runs only while a coroutine waits in
  an \<open>await\<close>. The outside world is a parameter. It says, for the \<open>k\<close>-th wait of the
  run, whether a client calls \<open>/api/scan/stop\<close> during it, what the probe that finishes
  in it returns (\<open>scan_single_ip\<close> returns a dictionary or \<open>None\<close>, and catches every
  exception), and whether the insert that runs in it raises; and it gives the values of
  the successive calls of \<open>random.randint\<close> and of \<open>time.time\<close>.
\<close>

record environment =
  stop_requested :: "nat \<Rightarrow> bool"
  probe :: "nat \<Rightarrow> string \<Rightarrow> int \<Rightarrow> bool \<Rightarrow> bool \<Rightarrow> pydict option"
  insert_raises :: "nat \<Rightarrow> bool"
  randint_at :: "nat \<Rightarrow> nat"
  time_at :: "nat \<Rightarrow> rat"

section \<open>app.py: the control endpoints\<close>

datatype api_error =
    AlreadyRunning
  | NoValidPorts
  | NoTargets
  | TooManyTargets nat
  | NotRunning
  | InternalError

datatype api_response =
    Rejected api_error
  | StartedRandom "int list"
  | StartedTarget "int list" nat nat
  | Stopped

record scan_start_request =
  req_ports :: "int list"
  req_take_screenshots :: bool
  req_run_vuln_check :: bool

record target_scan_request = scan_start_request +
  req_targets :: string

definition valid_ports_of :: "int list \<Rightarrow> int list" where
  \<comment> \<open>\<open>[p for p in request.ports if p in (80, 443, 8080, 8443)]\<close>\<close>
  "valid_ports_of ports = filter (\<lambda>p. p \<in> set [80, 443, 8080, 8443]) ports"

definition read_time :: "environment \<Rightarrow> world \<Rightarrow> rat \<times> world" where
  \<comment> \<open>\<open>time.time()\<close>\<close>
  "read_time env w = (time_at env (time_reads w), w\<lparr>time_reads := time_reads w + 1\<rparr>)"

definition start_scan ::
  "environment \<Rightarrow> scan_start_request \<Rightarrow> world \<Rightarrow> api_response \<times> world"
where
  "start_scan env request w =
     (if running (scan w) then (Rejected AlreadyRunning, w)
      else
        let valid_ports = valid_ports_of (req_ports request) in
        if valid_ports = [] then (Rejected NoValidPorts, w)
        else
          let s1 = reset_scan_state (scan w);
              s2 = s1\<lparr>running := True, mode := RandomMode\<rparr>;
              (now, w1) = read_time env (w\<lparr>scan := s2\<rparr>);
              w2 = w1\<lparr>scan := (scan w1)\<lparr>start_time := Some now\<rparr>\<rparr>;
              w3 = w2\<lparr>spawned := spawned w2 @
                     [RandomWorker valid_ports (req_take_screenshots request)
                        (req_run_vuln_check request)]\<rparr>
          in (StartedRandom valid_ports, w3))"

definition start_target_scan ::
  "environment \<Rightarrow> resolver \<Rightarrow> target_scan_request \<Rightarrow> world \<Rightarrow> api_response \<times> world"
where
  \<comment> \<open>an exception out of \<open>parse_target_ips\<close> leaves the handler: the framework answers
      with an internal server error and nothing has been changed\<close>
  "start_target_scan env resolver request w =
     (if running (scan w) then (Rejected AlreadyRunning, w)
      else
        case parse_target_ips resolver (req_targets request) of
          None \<Rightarrow> (Rejected InternalError, w)
        | Some target_ips \<Rightarrow>
            if target_ips = [] then (Rejected NoTargets, w)
            else
              let valid_ports = valid_ports_of (req_ports request) in
              if valid_ports = [] then (Rejected NoValidPorts, w)
              else
                let total_targets = length target_ips * length valid_ports in
                if total_targets > 100000 then (Rejected (TooManyTargets total_targets), w)
                else
                  let s1 = reset_scan_state (scan w);
                      s2 = s1\<lparr>running := True, mode := TargetMode\<rparr>;
                      (now, w1) = read_time env (w\<lparr>scan := s2\<rparr>);
                      w2 = w1\<lparr>scan := (scan w1)\<lparr>start_time := Some now\<rparr>\<rparr>;
                      w3 = w2\<lparr>spawned := spawned w2 @
                             [TargetWorker target_ips valid_ports (req_take_screenshots request)
                                (req_run_vuln_check request)]\<rparr>
                  in (StartedTarget valid_ports (length target_ips) total_targets, w3))"

definition stop_scan :: "world \<Rightarrow> api_response \<times> world" where
  "stop_scan w =
     (if \<not> running (scan w) then (Rejected NotRunning, w)
      else (Stopped, w\<lparr>scan := (scan w)\<lparr>running := False\<rparr>,
                       history := history w @ [StopAccepted]\<rparr>))"

section \<open>scanner.py: the workers\<close>

definition await_point :: "environment \<Rightarrow> world \<Rightarrow> world" where
  \<comment> \<open>one wait of the worker: the only moment at which a stop request can be served\<close>
  "await_point env w =
     (let w1 = w\<lparr>awaits := awaits w + 1\<rparr>
      in if stop_requested env (awaits w) then snd (stop_scan w1) else w1)"

definition notify_ws :: "environment \<Rightarrow> event \<Rightarrow> world \<Rightarrow> world" where
  \<comment> \<open>the message is handed over; sending it to the subscribers is a wait\<close>
  "notify_ws env message w = await_point env (w\<lparr>history := history w @ [Published message]\<rparr>)"

datatype worker_error = StorageError

definition save_result ::
  "environment \<Rightarrow> pydict \<Rightarrow> world \<Rightarrow> (worker_error \<times> world) + (int \<times> world)"
where
  \<comment> \<open>\<open>save_result\<close>: a wait on the database, after which either the insert has raised
      or the row is stored and its id returned\<close>
  "save_result env result w =
     (let w1 = await_point env w
      in if insert_raises env (awaits w) then Inl (StorageError, w1)
         else Inr (next_id w1,
                   w1\<lparr>rows := rows w1 @ [(next_id w1, result)],
                      next_id := next_id w1 + 1,
                      history := history w1 @ [Inserted (next_id w1)]\<rparr>))"

text \<open>
  \<open>asyncio.gather\<close> over the probes of a batch. No probe is cancelled: the worker waits
  until each one has finished, and a stop request can arrive during any of these waits.
  The probes are taken to finish in the order of the batch (the order in which they
  finish plays no role in what follows; the results come back in the order of the batch
  whatever it is).
\<close>

fun gather ::
  "environment \<Rightarrow> bool \<Rightarrow> bool \<Rightarrow> (string \<times> int) list \<Rightarrow> world \<Rightarrow> pydict option list \<times> world"
where
  "gather env take_screenshots run_vuln_check [] w = ([], w)"
| "gather env take_screenshots run_vuln_check ((ip, port) # tasks) w =
     (let w1 = await_point env w;
          result = probe env (awaits w) ip port take_screenshots run_vuln_check;
          w2 = w1\<lparr>history := history w1 @ [Completed ip port (running (scan w1))]\<rparr>;
          (results, w3) = gather env take_screenshots run_vuln_check tasks w2
      in (result # results, w3))"

definition dispatch ::
  "environment \<Rightarrow> bool \<Rightarrow> bool \<Rightarrow> (string \<times> int) list \<Rightarrow> world \<Rightarrow> pydict option list \<times> world"
where
  \<comment> \<open>\<open>results = await asyncio.gather(*tasks, return_exceptions=True)\<close>\<close>
  "dispatch env take_screenshots run_vuln_check tasks w =
     (let (results, w1) =
            gather env take_screenshots run_vuln_check tasks
              (w\<lparr>history := history w @ [Dispatched tasks]\<rparr>)
      in (results, w1\<lparr>history := history w1 @ [Joined]\<rparr>))"

definition update_rate ::
  "environment \<Rightarrow> nat \<Rightarrow> rat \<Rightarrow> world \<Rightarrow> bool \<times> (nat \<times> rat) \<times> world"
where
  \<comment> \<open>the rate bookkeeping after a batch; the flag says whether a second has passed.
      Times are rationals: the rounding of floating-point arithmetic is not modelled.\<close>
  "update_rate env rate_counter rate_start w =
     (let (now, w1) = read_time env w;
          elapsed = now - rate_start
      in if elapsed \<ge> 1 then
           let w2 = w1\<lparr>scan := (scan w1)\<lparr>current_rate := py_round (of_nat rate_counter / elapsed)\<rparr>\<rparr>;
               (rate_start', w3) = read_time env w2
           in (True, (0, rate_start'), w3)
         else (False, (rate_counter, rate_start), w1))"

subsection \<open>The random worker\<close>

fun build_tasks ::
  "environment \<Rightarrow> int list \<Rightarrow> nat \<Rightarrow> world \<Rightarrow> ((string \<times> int) list \<times> world) option"
where
  \<comment> \<open>\<open>for _ in range(batch_size)\<close>: one fresh address per round, paired with every
      port; \<open>None\<close> when \<open>generate_random_ip\<close> never returns\<close>
  "build_tasks env ports 0 w = Some ([], w)"
| "build_tasks env ports (Suc n) w =
     (if \<not> running (scan w) then Some ([], w)
      else
        case generate_random_ip (randint_at env) (draws w) of
          None \<Rightarrow> None
        | Some (ip, k) \<Rightarrow>
            (case build_tasks env ports n (w\<lparr>draws := k\<rparr>) of
               None \<Rightarrow> None
             | Some (tasks, w') \<Rightarrow> Some (map (\<lambda>port. (ip, port)) ports @ tasks, w')))"

fun random_results ::
  "environment \<Rightarrow> pydict option list \<Rightarrow> world \<Rightarrow> (worker_error \<times> world) + world"
where
  "random_results env [] w = Inr w"
| "random_results env (result # results) w =
     (if \<not> running (scan w) then Inr w
      else
        case result of
          None \<Rightarrow> random_results env results w
        | Some r \<Rightarrow>
            (case save_result env r w of
               Inl e \<Rightarrow> Inl e
             | Inr (result_id, w1) \<Rightarrow>
                 let r' = dict_set r ''id'' (PyInt result_id);
                     w2 = w1\<lparr>scan := (scan w1)\<lparr>total_found := total_found (scan w1) + 1\<rparr>\<rparr>;
                     w3 = notify_ws env (ResultEvent r') w2
                 in random_results env results w3))"

definition random_status :: "scan_state \<Rightarrow> status_data" where
  "random_status s =
     \<lparr>st_running = running s, st_total_scanned = total_scanned s,
      st_total_found = total_found s, st_current_rate = current_rate s,
      st_mode = mode s, st_target = None\<rparr>"

definition random_final_status :: "scan_state \<Rightarrow> status_data" where
  "random_final_status s =
     \<lparr>st_running = False, st_total_scanned = total_scanned s,
      st_total_found = total_found s, st_current_rate = 0,
      st_mode = mode s, st_target = None\<rparr>"

definition scan_worker_batch ::
  "environment \<Rightarrow> int list \<Rightarrow> bool \<Rightarrow> bool \<Rightarrow> nat \<times> rat \<Rightarrow> world \<Rightarrow>
   ((worker_error \<times> world) + ((nat \<times> rat) \<times> world)) option"
where
  \<comment> \<open>one round of \<open>while scan_state["running"]\<close>\<close>
  "scan_worker_batch env ports take_screenshots run_vuln_check rate w =
     (case build_tasks env ports 50 w of
        None \<Rightarrow> None
      | Some (tasks, w0) \<Rightarrow>
          let (results, w1) = dispatch env take_screenshots run_vuln_check tasks w0 in
          (case random_results env results w1 of
             Inl e \<Rightarrow> Some (Inl e)
           | Inr w2 \<Rightarrow>
               let scanned_count = length tasks;
                   w3 = w2\<lparr>scan := (scan w2)\<lparr>total_scanned := total_scanned (scan w2) + scanned_count\<rparr>\<rparr>;
                   (second_passed, rate', w4) =
                      update_rate env (fst rate + scanned_count) (snd rate) w3;
                   w5 = (if second_passed
                         then notify_ws env (StatusEvent (random_status (scan w4))) w4
                         else w4);
                   w6 = await_point env w5
               in Some (Inr (rate', w6))))"

partial_function (option) scan_worker_loop ::
  "environment \<Rightarrow> int list \<Rightarrow> bool \<Rightarrow> bool \<Rightarrow> nat \<times> rat \<Rightarrow> world \<Rightarrow>
   ((worker_error \<times> world) + world) option"
where
  "scan_worker_loop env ports take_screenshots run_vuln_check rate w =
     (if running (scan w) then
        Option.bind (scan_worker_batch env ports take_screenshots run_vuln_check rate w)
          (\<lambda>r. case r of
                 Inl e \<Rightarrow> Some (Inl e)
               | Inr (rate', w') \<Rightarrow>
                   scan_worker_loop env ports take_screenshots run_vuln_check rate' w')
      else Some (Inr w))"

definition scan_worker ::
  "environment \<Rightarrow> int list \<Rightarrow> bool \<Rightarrow> bool \<Rightarrow> world \<Rightarrow> ((worker_error \<times> world) + world) option"
where
  \<comment> \<open>\<open>None\<close>: the worker never returns. \<open>Inl\<close>: an exception ended it. \<open>Inr\<close>: it left
      the loop, closed its HTTP session (a wait) and handed over the final status
      message.\<close>
  "scan_worker env ports take_screenshots run_vuln_check w =
     (let (rate_start, w1) = read_time env w in
      case scan_worker_loop env ports take_screenshots run_vuln_check (0, rate_start) w1 of
        None \<Rightarrow> None
      | Some (Inl e) \<Rightarrow> Some (Inl e)
      | Some (Inr w2) \<Rightarrow>
          let w3 = await_point env w2
          in Some (Inr (notify_ws env (StatusEvent (random_final_status (scan w3))) w3)))"

subsection \<open>The target worker\<close>

fun target_results ::
  "environment \<Rightarrow> pydict option list \<Rightarrow> world \<Rightarrow> (worker_error \<times> world) + world"
where
  "target_results env [] w = Inr w"
| "target_results env (result # results) w =
     (if \<not> running (scan w) then Inr w
      else
        let w0 = w\<lparr>scan := (scan w)\<lparr>target_done := target_done (scan w) + 1\<rparr>\<rparr> in
        case result of
          None \<Rightarrow> target_results env results w0
        | Some r \<Rightarrow>
            (case save_result env r w0 of
               Inl e \<Rightarrow> Inl e
             | Inr (result_id, w1) \<Rightarrow>
                 let r' = dict_set r ''id'' (PyInt result_id);
                     w2 = w1\<lparr>scan := (scan w1)\<lparr>total_found := total_found (scan w1) + 1\<rparr>\<rparr>;
                     w3 = notify_ws env (ResultEvent r') w2
                 in target_results env results w3))"

definition target_status :: "scan_state \<Rightarrow> status_data" where
  "target_status s =
     \<lparr>st_running = running s, st_total_scanned = total_scanned s,
      st_total_found = total_found s, st_current_rate = current_rate s,
      st_mode = TargetMode, st_target = Some (target_total s, target_done s)\<rparr>"

definition target_final_status :: "scan_state \<Rightarrow> status_data" where
  "target_final_status s =
     \<lparr>st_running = False, st_total_scanned = total_scanned s,
      st_total_found = total_found s, st_current_rate = 0,
      st_mode = TargetMode, st_target = Some (target_total s, target_done s)\<rparr>"

definition target_batch ::
  "environment \<Rightarrow> bool \<Rightarrow> bool \<Rightarrow> (string \<times> int) list \<Rightarrow> nat \<times> rat \<Rightarrow> world \<Rightarrow>
   (worker_error \<times> world) + ((nat \<times> rat) \<times> world)"
where
  \<comment> \<open>the body of the loop over the batches, after the test of the flag\<close>
  "target_batch env take_screenshots run_vuln_check batch rate w =
     (let (results, w1) = dispatch env take_screenshots run_vuln_check batch w in
      case target_results env results w1 of
        Inl e \<Rightarrow> Inl e
      | Inr w2 \<Rightarrow>
          let scanned_count = length batch;
              w3 = w2\<lparr>scan := (scan w2)\<lparr>total_scanned := total_scanned (scan w2) + scanned_count\<rparr>\<rparr>;
              (second_passed, rate', w4) =
                 update_rate env (fst rate + scanned_count) (snd rate) w3;
              w5 = notify_ws env (StatusEvent (target_status (scan w4))) w4;
              w6 = await_point env w5
          in Inr (rate', w6))"

function target_loop ::
  "environment \<Rightarrow> bool \<Rightarrow> bool \<Rightarrow> (string \<times> int) list \<Rightarrow> nat \<Rightarrow> nat \<times> rat \<Rightarrow> world \<Rightarrow>
   (worker_error \<times> world) + world"
where
  \<comment> \<open>\<open>for i in range(0, len(all_tasks), batch_size)\<close> with \<open>batch_size = 20\<close>\<close>
  "target_loop env take_screenshots run_vuln_check all_tasks i rate w =
     (if i < length all_tasks then
        (if \<not> running (scan w) then Inr w
         else
           case target_batch env take_screenshots run_vuln_check
                  (take 20 (drop i all_tasks)) rate w of
             Inl e \<Rightarrow> Inl e
           | Inr (rate', w') \<Rightarrow>
               target_loop env take_screenshots run_vuln_check all_tasks (i + 20) rate' w')
      else Inr w)"
  by pat_completeness auto
termination
  by (relation "measure (\<lambda>(env, ss, vc, all_tasks, i, rate, w). length all_tasks - i)") auto

definition scan_target_worker ::
  "environment \<Rightarrow> string list \<Rightarrow> int list \<Rightarrow> bool \<Rightarrow> bool \<Rightarrow> world \<Rightarrow>
   (worker_error \<times> world) + world"
where
  "scan_target_worker env target_ips ports take_screenshots run_vuln_check w =
     (let w0 = w\<lparr>scan := (scan w)\<lparr>target_total := length target_ips * length ports,
                                  target_done := 0\<rparr>\<rparr>;
          (rate_start, w1) = read_time env w0;
          all_tasks = concat (map (\<lambda>ip. map (\<lambda>port. (ip, port)) ports) target_ips)
      in case target_loop env take_screenshots run_vuln_check all_tasks 0 (0, rate_start) w1 of
           Inl e \<Rightarrow> Inl e
         | Inr w2 \<Rightarrow>
             let w3 = await_point env w2;
                 w4 = w3\<lparr>scan := (scan w3)\<lparr>running := False\<rparr>\<rparr>
             in Inr (notify_ws env (StatusEvent (target_final_status (scan w4))) w4))"

subsection \<open>Reading a history\<close>

text \<open>
  Whether a batch is in flight after a history, and which of its probes are still to
  finish. A history is \<^emph>\<open>broken\<close> when anything but the probes of the batch finishing
  (and stop requests being served) happens between the hand-over of a batch and the
  return of \<open>gather\<close>, or when \<open>gather\<close> returns before every probe has finished.
\<close>

datatype flight = NoFlight | InFlight "(string \<times> int) list" | Broken

fun track :: "history_item \<Rightarrow> flight \<Rightarrow> flight" where
  "track StopAccepted f = f"
| "track (Dispatched tasks) NoFlight = InFlight tasks"
| "track (Completed ip port flag) (InFlight (task # tasks)) =
     (if task = (ip, port) then InFlight tasks else Broken)"
| "track Joined (InFlight []) = NoFlight"
| "track (Inserted i) NoFlight = NoFlight"
| "track (Published message) NoFlight = NoFlight"
| "track item f = Broken"

definition flight_after :: "history_item list \<Rightarrow> flight" where
  "flight_after h = fold track h NoFlight"

fun batches :: "history_item list \<Rightarrow> (string \<times> int) list list" where
  \<comment> \<open>the batches handed to \<open>gather\<close>, in order\<close>
  "batches [] = []"
| "batches (Dispatched tasks # h) = tasks # batches h"
| "batches (item # h) = batches h"

fun completed :: "history_item list \<Rightarrow> (string \<times> int) list" where
  \<comment> \<open>the probes that have finished, in order\<close>
  "completed [] = []"
| "completed (Completed ip port flag # h) = (ip, port) # completed h"
| "completed (item # h) = completed h"

fun calm :: "history_item \<Rightarrow> bool" where
  \<comment> \<open>what can happen while no batch is in flight, short of handing over a batch\<close>
  "calm (Inserted i) = True"
| "calm (Published message) = True"
| "calm StopAccepted = True"
| "calm item = False"

definition settled :: "world \<Rightarrow> bool" where
  \<comment> \<open>no batch is in flight, the history is not broken, and the probes that have
      finished are exactly the probes of the batches handed over, in order\<close>
  "settled w \<longleftrightarrow>
     flight_after (history w) = NoFlight \<and>
     completed (history w) = concat (batches (history w))"

definition calmly :: "world \<Rightarrow> world \<Rightarrow> bool" where
  \<comment> \<open>from the first world to the second only calm things were added to the history,
      and the count of scanned pairs and the target total were not touched\<close>
  "calmly w w' \<longleftrightarrow>
     (\<exists>h. history w' = history w @ h \<and> list_all calm h) \<and>
     total_scanned (scan w') = total_scanned (scan w) \<and>
     target_total (scan w') = target_total (scan w)"

subsection \<open>Sample runs\<close>

text \<open>
  A world in which nothing has happened yet, a world in which a target scan has just
  been started, and three outside worlds: one in which nothing interferes and the host
  10.0.0.2 answers on port 80; the same with a stop request during the second wait; and
  one for the random worker, whose draws are all 8.8.8.8 and which is stopped during the
  third wait.
\<close>

definition idle_world :: world where
  "idle_world =
     \<lparr>scan = \<lparr>running = False, total_scanned = 0, total_found = 0, current_rate = 0,
              start_time = None, mode = RandomMode, target_total = 0, target_done = 0\<rparr>,
      spawned = [], rows = [], next_id = 1, awaits = 0, draws = 0, time_reads = 0,
      history = []\<rparr>"

definition started_world :: world where
  "started_world =
     idle_world\<lparr>scan := (scan idle_world)\<lparr>running := True, mode := TargetMode,
                                            start_time := Some 0\<rparr>\<rparr>"

definition quiet_env :: environment where
  "quiet_env =
     \<lparr>stop_requested = (\<lambda>k. False),
      probe = (\<lambda>k ip port take_screenshots run_vuln_check.
                 if ip = ''10.0.0.2'' \<and> port = 80
                 then Some [(''ip'', PyStr ip), (''port'', PyInt port)] else None),
      insert_raises = (\<lambda>k. False),
      randint_at = (\<lambda>k. 134744072),
      time_at = (\<lambda>k. 0)\<rparr>"

definition stopping_env :: environment where
  "stopping_env = quiet_env\<lparr>stop_requested := (\<lambda>k. k = 1)\<rparr>"

definition random_stopping_env :: environment where
  "random_stopping_env = quiet_env\<lparr>stop_requested := (\<lambda>k. k = 2)\<rparr>"

section \<open>Properties of the vulnerability checks\<close>

subsection \<open>Summary\<close>

lemma count_risk_level:
  "count_risk f counts l =
   map_option (\<lambda>n. if finding_risk f = PyStr l then n + 1 else n) (counts l)"
proof (cases "finding_risk f")
  case (PyStr risk)
  then show ?thesis
    by (cases "counts risk"; cases "counts l") (auto simp: count_risk_def)
next
  case (PyInt i)
  then show ?thesis
    by (cases "counts l") (auto simp: count_risk_def)
next
  case PyNone
  then show ?thesis
    by (cases "counts l") (auto simp: count_risk_def)
qed

lemma fold_count_risk_level:
  "fold count_risk fs counts l =
   map_option (\<lambda>n. n + length (filter (\<lambda>f. finding_risk f = PyStr l) fs)) (counts l)"
proof (induction fs arbitrary: counts)
  case Nil
  show ?case by (cases "counts l") simp_all
next
  case (Cons f fs)
  have "fold count_risk (f # fs) counts l = fold count_risk fs (count_risk f counts) l"
    by simp
  also have "\<dots> = map_option (\<lambda>n. n + length (filter (\<lambda>f. finding_risk f = PyStr l) fs))
                      (count_risk f counts l)"
    by (rule Cons.IH)
  also have "\<dots> = map_option (\<lambda>n. n + length (filter (\<lambda>f. finding_risk f = PyStr l) (f # fs)))
                      (counts l)"
    by (cases "counts l") (simp_all add: count_risk_level)
  finally show ?case .
qed

lemma initial_risk_counts_level:
  "l \<in> set RISK_LEVELS \<Longrightarrow> initial_risk_counts l = Some 0"
  by (auto simp: RISK_LEVELS_def initial_risk_counts_def)

lemma summarize_counts_level:
  "l \<in> set RISK_LEVELS \<Longrightarrow>
   fold count_risk fs initial_risk_counts l =
     Some (length (filter (\<lambda>f. finding_risk f = PyStr l) fs))"
  by (simp add: fold_count_risk_level initial_risk_counts_level)

lemma highest_level_unfold:
  "max_risk (summarize_vulns fs) =
   (if \<exists>f \<in> set fs. finding_risk f = PyStr ''critical'' then ''critical''
    else if \<exists>f \<in> set fs. finding_risk f = PyStr ''high'' then ''high''
    else if \<exists>f \<in> set fs. finding_risk f = PyStr ''medium'' then ''medium''
    else if \<exists>f \<in> set fs. finding_risk f = PyStr ''low'' then ''low''
    else ''info'')"
  by (simp add: summarize_vulns_def Let_def RISK_LEVELS_def filter_empty_conv
        summarize_counts_level [unfolded RISK_LEVELS_def])

lemma risk_rank_levels:
  "risk_rank ''critical'' = 4" "risk_rank ''high'' = 3" "risk_rank ''medium'' = 2"
  "risk_rank ''low'' = 1" "risk_rank ''info'' = 0"
  by (simp_all add: risk_rank_def)

text \<open>
  Claim C3. For every list of findings whose risk values are all among critical, high,
  medium, low and info, \<open>summarize_vulns\<close> returns as total the length of the list and
  as \<open>max_risk\<close> the highest risk level present in the list (a level that some finding
  has and that no finding exceeds in the order critical \<open>>\<close> high \<open>>\<close> medium \<open>>\<close> low
  \<open>>\<close> info), and info for the empty list.
\<close>

theorem summarize_vulns_total_max_risk:
  assumes "\<forall>f \<in> set findings. \<exists>r \<in> set RISK_LEVELS. finding_risk f = PyStr r"
  shows "total (summarize_vulns findings) = length findings \<and>
         (findings = [] \<longrightarrow> max_risk (summarize_vulns findings) = ''info'') \<and>
         (findings \<noteq> [] \<longrightarrow>
            (\<exists>f \<in> set findings. finding_risk f = PyStr (max_risk (summarize_vulns findings))) \<and>
            (\<forall>f \<in> set findings. \<forall>r. finding_risk f = PyStr r \<longrightarrow>
                risk_rank r \<le> risk_rank (max_risk (summarize_vulns findings))))"
proof -
  define has where "has l \<longleftrightarrow> (\<exists>f \<in> set findings. finding_risk f = PyStr l)" for l
  define m where "m = max_risk (summarize_vulns findings)"
  have m: "m = (if has ''critical'' then ''critical'' else if has ''high'' then ''high''
                else if has ''medium'' then ''medium'' else if has ''low'' then ''low''
                else ''info'')"
    unfolding m_def has_def by (rule highest_level_unfold)
  have lv: "r = ''critical'' \<or> r = ''high'' \<or> r = ''medium'' \<or> r = ''low'' \<or> r = ''info''"
    if "f \<in> set findings" "finding_risk f = PyStr r" for f r
  proof -
    from assms that obtain r' where "r' \<in> set RISK_LEVELS" "r = r'" by fastforce
    then show ?thesis by (simp add: RISK_LEVELS_def)
  qed
  have hasI: "has r" if "f \<in> set findings" "finding_risk f = PyStr r" for f r
    using that unfolding has_def by blast
  have total: "total (summarize_vulns findings) = length findings"
    by (simp add: summarize_vulns_def Let_def)
  have empty: "m = ''info''" if "findings = []"
    using that by (simp add: m has_def)
  have present: "has m" if "findings \<noteq> []"
  proof -
    from that obtain f0 where f0: "f0 \<in> set findings" by (cases findings) auto
    with assms obtain r0 where r0: "finding_risk f0 = PyStr r0" by blast
    have "has r0" using f0 r0 by (rule hasI)
    with lv [OF f0 r0] show ?thesis
      by (cases "has ''critical''"; cases "has ''high''"; cases "has ''medium''";
          cases "has ''low''") (auto simp: m)
  qed
  have bound: "risk_rank r \<le> risk_rank m" if fr: "f \<in> set findings" "finding_risk f = PyStr r" for f r
  proof -
    have "has r" using fr by (rule hasI)
    with lv [OF fr] show ?thesis
      by (cases "has ''critical''"; cases "has ''high''"; cases "has ''medium''";
          cases "has ''low''") (auto simp: m risk_rank_levels)
  qed
  from total empty present bound show ?thesis
    unfolding m_def [symmetric] has_def by blast
qed


theorem summarize_vulns_total_max_risk_witness:
  "total (summarize_vulns
      [[(''type'', PyStr ''exposed_path''), (''risk'', PyStr ''low'')],
       [(''risk'', PyStr ''high'')],
       []]) = 3 \<and>
   max_risk (summarize_vulns
      [[(''type'', PyStr ''exposed_path''), (''risk'', PyStr ''low'')],
       [(''risk'', PyStr ''high'')],
       []]) = ''high''"
proof -
  let ?fs = "[[(''type'', PyStr ''exposed_path''), (''risk'', PyStr ''low'')],
       [(''risk'', PyStr ''high'')],
       []]"
  have h: "\<forall>f \<in> set ?fs. \<exists>r \<in> set RISK_LEVELS. finding_risk f = PyStr r"
    by (simp add: RISK_LEVELS_def finding_risk_def dict_get_def)
  note c3 = summarize_vulns_total_max_risk [OF h]
  let ?m = "max_risk (summarize_vulns ?fs)"
  from c3 have "\<exists>f \<in> set ?fs. finding_risk f = PyStr ?m" by simp
  then have m: "?m = ''low'' \<or> ?m = ''high'' \<or> ?m = ''info''"
    by (auto simp: finding_risk_def dict_get_def)
  from c3 have "\<forall>f \<in> set ?fs. \<forall>r. finding_risk f = PyStr r \<longrightarrow> risk_rank r \<le> risk_rank ?m"
    by simp
  then have "risk_rank ''high'' \<le> risk_rank ?m"
    by (simp add: finding_risk_def dict_get_def)
  with m have "?m = ''high''"
    by (elim disjE) (simp_all add: risk_rank_def)
  moreover from c3 have "total (summarize_vulns ?fs) = 3" by simp
  ultimately show ?thesis by simp
qed

subsection \<open>Header audit\<close>

lemma security_header_loop_eq:
  "security_header_loop tbl headers acc =
   acc @ map (\<lambda>(h, i). missing_header_finding i)
           (filter (\<lambda>(h, i). lower h \<notin> lower ` fst ` set headers) tbl)"
proof (induction tbl arbitrary: acc)
  case Nil
  show ?case by simp
next
  case (Cons a tbl)
  obtain h i where a: "a = (h, i)" by (cases a)
  have keys: "set (map (\<lambda>(k, v). lower k) headers) = lower ` fst ` set headers"
    by (force simp: image_iff)
  show ?case unfolding a by (simp add: Cons.IH keys del: set_map)
qed

lemma SECURITY_HEADERS_names_risks:
  "map (\<lambda>(h, i). (h, info_name i, info_risk i)) SECURITY_HEADERS =
     [(''Strict-Transport-Security'', ''HSTS'', ''medium''),
      (''X-Frame-Options'', ''X-Frame-Options'', ''medium''),
      (''X-Content-Type-Options'', ''X-Content-Type-Options'', ''low''),
      (''Content-Security-Policy'', ''CSP'', ''medium''),
      (''X-XSS-Protection'', ''X-XSS-Protection'', ''low''),
      (''Referrer-Policy'', ''Referrer-Policy'', ''low''),
      (''Permissions-Policy'', ''Permissions-Policy'', ''low'')]"
  by (simp add: SECURITY_HEADERS_def)

lemma missing_header_finding_fields:
  "map_of (missing_header_finding i) ''type'' = Some (PyStr ''missing_header'')"
  "map_of (missing_header_finding i) ''name'' = Some (PyStr (info_name i))"
  "map_of (missing_header_finding i) ''risk'' = Some (PyStr (info_risk i))"
  "finding_risk (missing_header_finding i) = PyStr (info_risk i)"
  by (simp_all add: missing_header_finding_def finding_risk_def dict_get_def)

lemma all_missing_risks:
  "map (\<lambda>(h, i). finding_risk (missing_header_finding i)) SECURITY_HEADERS =
     map PyStr [''medium'', ''medium'', ''low'', ''medium'', ''low'', ''low'', ''low'']"
  by (simp add: SECURITY_HEADERS_def missing_header_finding_fields)


text \<open>
  Claim C7. The header audit tracks exactly seven headers with the risks medium, medium,
  low, medium, low, low, low (HSTS, X-Frame-Options, X-Content-Type-Options, CSP,
  X-XSS-Protection, Referrer-Policy, Permissions-Policy); its result is one
  \<open>missing_header\<close> finding, in table order, for every tracked header that no response
  header name equals up to letter case; and a response that lacks all seven gets exactly
  seven \<open>missing_header\<close> findings whose summary has \<open>max_risk\<close> medium.
\<close>

theorem check_security_headers_audit:
  "map (\<lambda>(h, i). (h, info_name i, info_risk i)) SECURITY_HEADERS =
     [(''Strict-Transport-Security'', ''HSTS'', ''medium''),
      (''X-Frame-Options'', ''X-Frame-Options'', ''medium''),
      (''X-Content-Type-Options'', ''X-Content-Type-Options'', ''low''),
      (''Content-Security-Policy'', ''CSP'', ''medium''),
      (''X-XSS-Protection'', ''X-XSS-Protection'', ''low''),
      (''Referrer-Policy'', ''Referrer-Policy'', ''low''),
      (''Permissions-Policy'', ''Permissions-Policy'', ''low'')] \<and>
   check_security_headers headers =
     map (\<lambda>(h, i). missing_header_finding i)
       (filter (\<lambda>(h, i). lower h \<notin> lower ` fst ` set headers) SECURITY_HEADERS) \<and>
   (\<forall>i. map_of (missing_header_finding i) ''type'' = Some (PyStr ''missing_header'') \<and>
        map_of (missing_header_finding i) ''name'' = Some (PyStr (info_name i)) \<and>
        map_of (missing_header_finding i) ''risk'' = Some (PyStr (info_risk i))) \<and>
   ((\<forall>h \<in> fst ` set SECURITY_HEADERS. lower h \<notin> lower ` fst ` set headers) \<longrightarrow>
      length (check_security_headers headers) = 7 \<and>
      (\<forall>f \<in> set (check_security_headers headers).
          map_of f ''type'' = Some (PyStr ''missing_header'')) \<and>
      max_risk (summarize_vulns (check_security_headers headers)) = ''medium'')"
proof (intro conjI allI impI)
  show "map (\<lambda>(h, i). (h, info_name i, info_risk i)) SECURITY_HEADERS =
     [(''Strict-Transport-Security'', ''HSTS'', ''medium''),
      (''X-Frame-Options'', ''X-Frame-Options'', ''medium''),
      (''X-Content-Type-Options'', ''X-Content-Type-Options'', ''low''),
      (''Content-Security-Policy'', ''CSP'', ''medium''),
      (''X-XSS-Protection'', ''X-XSS-Protection'', ''low''),
      (''Referrer-Policy'', ''Referrer-Policy'', ''low''),
      (''Permissions-Policy'', ''Permissions-Policy'', ''low'')]"
    by (rule SECURITY_HEADERS_names_risks)
  show eq: "check_security_headers headers =
     map (\<lambda>(h, i). missing_header_finding i)
       (filter (\<lambda>(h, i). lower h \<notin> lower ` fst ` set headers) SECURITY_HEADERS)"
    by (simp add: check_security_headers_def security_header_loop_eq)
  fix i
  show "map_of (missing_header_finding i) ''type'' = Some (PyStr ''missing_header'')"
       "map_of (missing_header_finding i) ''name'' = Some (PyStr (info_name i))"
       "map_of (missing_header_finding i) ''risk'' = Some (PyStr (info_risk i))"
    by (rule missing_header_finding_fields)+
next
  assume absent: "\<forall>h \<in> fst ` set SECURITY_HEADERS. lower h \<notin> lower ` fst ` set headers"
  have all: "filter (\<lambda>(h, i). lower h \<notin> lower ` fst ` set headers) SECURITY_HEADERS
               = SECURITY_HEADERS"
    using absent by (intro filter_True) force
  have eq: "check_security_headers headers =
              map (\<lambda>(h, i). missing_header_finding i) SECURITY_HEADERS"
    by (simp add: check_security_headers_def security_header_loop_eq all)
  have len: "length SECURITY_HEADERS = 7"
    using arg_cong [OF SECURITY_HEADERS_names_risks, of length] by simp
  show "length (check_security_headers headers) = 7"
    by (simp add: eq len)
  show "\<forall>f \<in> set (check_security_headers headers).
          map_of f ''type'' = Some (PyStr ''missing_header'')"
    by (auto simp: eq missing_header_finding_fields)
  have risks: "map finding_risk (check_security_headers headers) =
          map PyStr [''medium'', ''medium'', ''low'', ''medium'', ''low'', ''low'', ''low'']"
    using all_missing_risks by (simp add: eq comp_def case_prod_unfold)
  have ex: "(\<exists>f \<in> set (check_security_headers headers). finding_risk f = PyStr l) \<longleftrightarrow>
        PyStr l \<in> set (map finding_risk (check_security_headers headers))" for l
    by (simp add: image_iff) metis
  show "max_risk (summarize_vulns (check_security_headers headers)) = ''medium''"
    unfolding highest_level_unfold ex risks by simp
qed

theorem check_security_headers_audit_witness:
  "length (check_security_headers []) = 7 \<and>
   max_risk (summarize_vulns (check_security_headers [])) = ''medium'' \<and>
   map (\<lambda>f. map_of f ''name'')
     (check_security_headers
        [(''x-frame-OPTIONS'', ''DENY''), (''Content-Security-Policy'', ''default-src *''),
         (''Server'', ''nginx'')]) =
     map (\<lambda>n. Some (PyStr n))
       [''HSTS'', ''X-Content-Type-Options'', ''X-XSS-Protection'', ''Referrer-Policy'',
        ''Permissions-Policy'']"
proof -
  have "\<forall>h \<in> fst ` set SECURITY_HEADERS. lower h \<notin> lower ` fst ` set ([] :: (string \<times> string) list)"
    by simp
  with check_security_headers_audit [of "[]"]
  have "length (check_security_headers []) = 7"
       "max_risk (summarize_vulns (check_security_headers [])) = ''medium''"
    by blast+
  moreover
  have "map (\<lambda>f. map_of f ''name'')
     (check_security_headers
        [(''x-frame-OPTIONS'', ''DENY''), (''Content-Security-Policy'', ''default-src *''),
         (''Server'', ''nginx'')]) =
     map (\<lambda>n. Some (PyStr n))
       [''HSTS'', ''X-Content-Type-Options'', ''X-XSS-Protection'', ''Referrer-Policy'',
        ''Permissions-Policy'']"
    by code_simp
  ultimately show ?thesis by blast
qed

subsection \<open>Exposed paths\<close>









section \<open>Properties of the address model and of the random generator\<close>

lemmas ip_parse_defs =
  IPv4Network_def IPv4Address_def ip_int_from_string_def split_on_def parse_octet_def
  is_ascii_digit_def int_of_digits_def make_netmask_def prefix_from_prefix_string_def

lemma EXCLUDED_NETWORKS_eq:
  "EXCLUDED_NETWORKS =
     [\<lparr>network_address = 0, prefixlen = 8\<rparr>,
      \<lparr>network_address = 167772160, prefixlen = 8\<rparr>,
      \<lparr>network_address = 1681915904, prefixlen = 10\<rparr>,
      \<lparr>network_address = 2130706432, prefixlen = 8\<rparr>,
      \<lparr>network_address = 2851995648, prefixlen = 16\<rparr>,
      \<lparr>network_address = 2886729728, prefixlen = 12\<rparr>,
      \<lparr>network_address = 3221225472, prefixlen = 24\<rparr>,
      \<lparr>network_address = 3221225984, prefixlen = 24\<rparr>,
      \<lparr>network_address = 3227017984, prefixlen = 24\<rparr>,
      \<lparr>network_address = 3232235520, prefixlen = 16\<rparr>,
      \<lparr>network_address = 3323068416, prefixlen = 15\<rparr>,
      \<lparr>network_address = 3325256704, prefixlen = 24\<rparr>,
      \<lparr>network_address = 3405803776, prefixlen = 24\<rparr>,
      \<lparr>network_address = 3758096384, prefixlen = 4\<rparr>,
      \<lparr>network_address = 4026531840, prefixlen = 4\<rparr>,
      \<lparr>network_address = 4294967295, prefixlen = 32\<rparr>]"
  by (simp add: EXCLUDED_NETWORKS_def ip_parse_defs)

lemma length_EXCLUDED_NETWORKS: "length EXCLUDED_NETWORKS = 16"
  by (simp add: EXCLUDED_NETWORKS_eq)

lemma excluded_loop_iff:
  "excluded_loop networks ip \<longleftrightarrow> (\<forall>network \<in> set networks. \<not> in_network ip network)"
  by (induction networks) auto

lemma div_mult_eq_iff_range:
  fixes K :: nat
  assumes "0 < K"
  shows "ip div K * K = q * K \<longleftrightarrow> q * K \<le> ip \<and> ip \<le> q * K + K - 1"
proof -
  have "ip div K * K = q * K \<longleftrightarrow> ip div K = q" using assms by simp
  also have "\<dots> \<longleftrightarrow> q * K \<le> ip \<and> ip < (q + 1) * K"
  proof
    assume "ip div K = q"
    then have "ip = q * K + ip mod K"
      using div_mult_mod_eq [of ip K] by simp
    moreover have "ip mod K < K" using assms by simp
    ultimately show "q * K \<le> ip \<and> ip < (q + 1) * K"
      by (simp add: algebra_simps)
  next
    assume "q * K \<le> ip \<and> ip < (q + 1) * K"
    then show "ip div K = q"
      by (intro div_nat_eqI) (simp_all add: mult.commute)
  qed
  also have "\<dots> \<longleftrightarrow> q * K \<le> ip \<and> ip \<le> q * K + K - 1"
    using assms by (auto simp: algebra_simps)
  finally show ?thesis .
qed

lemma in_network_range:
  assumes "network_address network mod 2 ^ (32 - prefixlen network) = 0"
  shows "in_network ip network \<longleftrightarrow>
         network_address network \<le> ip \<and> ip \<le> broadcast_address network"
proof -
  define K :: nat where "K = 2 ^ (32 - prefixlen network)"
  have K: "0 < K" by (simp add: K_def)
  from assms have "K dvd network_address network"
    unfolding K_def by (simp add: dvd_eq_mod_eq_0)
  then obtain q where q: "network_address network = q * K"
    by (auto simp: dvd_def mult.commute)
  show ?thesis
    using div_mult_eq_iff_range [OF K, of ip q]
    by (simp add: in_network_def broadcast_address_def K_def [symmetric] q)
qed

lemma EXCLUDED_NETWORKS_aligned:
  "network \<in> set EXCLUDED_NETWORKS \<Longrightarrow>
      network_address network mod 2 ^ (32 - prefixlen network) = 0"
  by (auto simp: EXCLUDED_NETWORKS_eq)


lemma split_acc_no_sep:
  "sep \<notin> set xs \<Longrightarrow> split_acc sep cur xs = [cur @ xs]"
  by (induction xs arbitrary: cur) auto

lemma split_acc_at_sep:
  "sep \<notin> set xs \<Longrightarrow> split_acc sep cur (xs @ sep # rest) = (cur @ xs) # split_acc sep [] rest"
  by (induction xs arbitrary: cur) auto

lemma of_char_digit:
  "d < 10 \<Longrightarrow> (of_char (char_of (48 + d) :: char) :: nat) = 48 + d"
  by simp

lemma str_nat_nonempty: "str_nat n \<noteq> []"
  by (subst str_nat.simps) simp

lemma str_nat_digits: "c \<in> set (str_nat n) \<Longrightarrow> is_ascii_digit c"
proof (induction n rule: str_nat.induct)
  case (1 n)
  show ?case
  proof (cases "n < 10")
    case True
    with 1(2) have "c = char_of (48 + n)" by (simp add: str_nat.simps [of n])
    with True show ?thesis by (simp add: is_ascii_digit_def of_char_digit)
  next
    case False
    with 1(2) have "c \<in> set (str_nat (n div 10)) \<or> c = char_of (48 + n mod 10)"
      by (auto simp: str_nat.simps [of n])
    then show ?thesis
    proof
      assume "c \<in> set (str_nat (n div 10))"
      with 1(1) False show ?thesis by simp
    next
      assume "c = char_of (48 + n mod 10)"
      then show ?thesis by (simp add: is_ascii_digit_def of_char_digit)
    qed
  qed
qed

lemma int_of_digits_snoc:
  "int_of_digits (s @ [c]) = 10 * int_of_digits s + (of_char c - 48)"
  by (simp add: int_of_digits_def)

lemma int_of_digits_str_nat: "int_of_digits (str_nat n) = n"
proof (induction n rule: str_nat.induct)
  case (1 n)
  show ?case
  proof (cases "n < 10")
    case True
    then show ?thesis
      by (simp add: str_nat.simps [of n] int_of_digits_def of_char_digit)
  next
    case False
    with 1 have "int_of_digits (str_nat (n div 10)) = n div 10" by simp
    with False show ?thesis
      by (simp add: str_nat.simps [of n] int_of_digits_snoc of_char_digit)
  qed
qed

lemma str_nat_no_leading_zero: "n \<noteq> 0 \<Longrightarrow> hd (str_nat n) \<noteq> CHR ''0''"
proof (induction n rule: str_nat.induct)
  case (1 n)
  show ?case
  proof (cases "n < 10")
    case True
    have "(of_char (char_of (48 + n) :: char) :: nat) \<noteq> of_char CHR ''0''"
      using True 1(2) by (simp add: of_char_digit)
    then have "char_of (48 + n) \<noteq> CHR ''0''" by metis
    with True show ?thesis by (simp add: str_nat.simps [of n])
  next
    case False
    then have "n div 10 \<noteq> 0" by simp
    with 1(1) False have "hd (str_nat (n div 10)) \<noteq> CHR ''0''" by simp
    with False show ?thesis
      by (simp add: str_nat.simps [of n] str_nat_nonempty)
  qed
qed

lemma str_nat_length: "n < 1000 \<Longrightarrow> length (str_nat n) \<le> 3"
  by (simp add: str_nat.simps [of n] str_nat.simps [of "n div 10"]
        str_nat.simps [of "n div 10 div 10"])

lemma str_nat_zero: "str_nat 0 = ''0''"
  by code_simp

lemma str_nat_eq_zero: "str_nat n = ''0'' \<Longrightarrow> n = 0"
  using int_of_digits_str_nat [of n] by (simp add: int_of_digits_def)

lemma octet_roundtrip:
  assumes "m < 256"
  shows "parse_octet (str_nat m) = Some m" "CHR ''.'' \<notin> set (str_nat m)"
        "CHR ''/'' \<notin> set (str_nat m)"
proof -
  have digits: "list_all is_ascii_digit (str_nat m)"
    by (simp add: list_all_iff str_nat_digits)
  have lead: "\<not> (str_nat m \<noteq> ''0'' \<and> hd (str_nat m) = CHR ''0'')"
    using str_nat_no_leading_zero [of m] by (cases "m = 0") (simp_all add: str_nat_zero)
  have len: "\<not> length (str_nat m) > 3" using str_nat_length [of m] assms by simp
  show "parse_octet (str_nat m) = Some m"
    unfolding parse_octet_def using assms digits lead len
    by (simp add: str_nat_nonempty int_of_digits_str_nat)
  have "\<not> is_ascii_digit CHR ''.''" "\<not> is_ascii_digit CHR ''/''"
    by (simp_all add: is_ascii_digit_def)
  then show "CHR ''.'' \<notin> set (str_nat m)" "CHR ''/'' \<notin> set (str_nat m)"
    using str_nat_digits [of _ m] by blast+
qed

lemma quad_value:
  fixes n :: nat
  assumes "n < 4294967296"
  shows "((n div 16777216 mod 256 * 256 + n div 65536 mod 256) * 256 + n div 256 mod 256) * 256
           + n mod 256 = n"
proof -
  define q1 r0 q2 r1 q3 r2 where "q1 = n div 256" and "r0 = n mod 256"
    and "q2 = n div 65536" and "r1 = n div 256 mod 256"
    and "q3 = n div 16777216" and "r2 = n div 65536 mod 256"
  have "q2 = q1 div 256" "q3 = q2 div 256"
    by (simp_all add: q1_def q2_def q3_def div_mult2_eq [symmetric])
  then have e: "q1 * 256 + r0 = n" "q2 * 256 + r1 = q1" "q3 * 256 + r2 = q2"
    by (simp_all add: q1_def r0_def q2_def r1_def r2_def)
  have "q3 mod 256 = q3" using assms by (simp add: q3_def)
  then have "((q3 mod 256 * 256 + r2) * 256 + r1) * 256 + r0 = n"
    by (simp only: e)
  then show ?thesis
    unfolding q3_def r2_def r1_def r0_def .
qed

lemma IPv4Address_str_ipv4:
  assumes "n < 4294967296"
  shows "IPv4Address (str_ipv4 n) = Some n"
proof -
  define a b c d where "a = n div 16777216 mod 256" and "b = n div 65536 mod 256"
    and "c = n div 256 mod 256" and "d = n mod 256"
  have lt: "a < 256" "b < 256" "c < 256" "d < 256" by (simp_all add: a_def b_def c_def d_def)
  have str: "str_ipv4 n = str_nat a @ CHR ''.'' # str_nat b @ CHR ''.'' # str_nat c @ CHR ''.'' # str_nat d"
    by (simp add: str_ipv4_def a_def b_def c_def d_def)
  have split: "split_on CHR ''.'' (str_ipv4 n) = [str_nat a, str_nat b, str_nat c, str_nat d]"
    unfolding str split_on_def
    by (simp add: split_acc_at_sep split_acc_no_sep octet_roundtrip lt)
  have noslash: "CHR ''/'' \<notin> set (str_ipv4 n)"
    unfolding str by (simp add: octet_roundtrip lt)
  have nonempty: "str_ipv4 n \<noteq> []" unfolding str by simp
  have "((a * 256 + b) * 256 + c) * 256 + d = n"
    unfolding a_def b_def c_def d_def using assms by (rule quad_value)
  then show ?thesis
    by (simp add: IPv4Address_def noslash ip_int_from_string_def nonempty split
          octet_roundtrip lt)
qed

lemma generate_random_ip_valid:
  assumes "generate_random_ip randint k = Some r"
  shows "\<exists>j \<ge> k. r = (str_ipv4 (randint j), j + 1) \<and> is_valid_global_ip (randint j)"
proof (rule generate_random_ip.raw_induct
    [where P = "\<lambda>randint k r. \<exists>j \<ge> k. r = (str_ipv4 (randint j), j + 1)
                                  \<and> is_valid_global_ip (randint j)", OF _ assms])
  fix f :: "(nat \<Rightarrow> nat) \<Rightarrow> nat \<Rightarrow> (string \<times> nat) option" and randint k r
  assume IH: "\<And>randint k r. f randint k = Some r \<Longrightarrow>
                \<exists>j \<ge> k. r = (str_ipv4 (randint j), j + 1) \<and> is_valid_global_ip (randint j)"
    and eq: "(if is_valid_global_ip (randint k) then Some (str_ipv4 (randint k), k + 1)
              else f randint (k + 1)) = Some r"
  show "\<exists>j \<ge> k. r = (str_ipv4 (randint j), j + 1) \<and> is_valid_global_ip (randint j)"
  proof (cases "is_valid_global_ip (randint k)")
    case True
    with eq have "r = (str_ipv4 (randint k), k + 1)" by simp
    with True show ?thesis by (intro exI [of _ k]) simp
  next
    case False
    with eq have "f randint (k + 1) = Some r" by simp
    from IH [OF this] obtain j where "k + 1 \<le> j"
      "r = (str_ipv4 (randint j), j + 1)" "is_valid_global_ip (randint j)" by blast
    then show ?thesis by (intro exI [of _ j]) simp
  qed
qed

text \<open>
  Claim C8, as amended. Let every draw of the random source lie in [1, 0xFFFFFFFE], as
  \<open>random.randint\<close> promises. Then every string that \<open>generate_random_ip\<close> returns is
  the dotted quad of an integer in [1, 0xFFFFFFFE], parses back to that integer, and lies
  in none of the 16 excluded networks: it fails the membership test of each, and it is
  outside the range from the network address to the broadcast address of each.
\<close>

theorem generate_random_ip_global:
  assumes "\<forall>k. 1 \<le> randint k \<and> randint k \<le> 0xFFFFFFFE"
      and "generate_random_ip randint k = Some (s, k')"
  shows "length EXCLUDED_NETWORKS = 16 \<and>
         (\<exists>n. IPv4Address s = Some n \<and> s = str_ipv4 n \<and> 1 \<le> n \<and> n \<le> 0xFFFFFFFE \<and>
              (\<forall>network \<in> set EXCLUDED_NETWORKS.
                  \<not> in_network n network \<and>
                  \<not> (network_address network \<le> n \<and> n \<le> broadcast_address network)))"
proof -
  from generate_random_ip_valid [OF assms(2)] obtain j where
    j: "(s, k') = (str_ipv4 (randint j), j + 1)" and valid: "is_valid_global_ip (randint j)"
    by blast
  define n where "n = randint j"
  have s: "s = str_ipv4 n" using j by (simp add: n_def)
  have range: "1 \<le> n" "n \<le> 0xFFFFFFFE" using assms(1) by (simp_all add: n_def)
  from range(2) have "n < 4294967296" by simp
  then have parse: "IPv4Address s = Some n"
    unfolding s by (rule IPv4Address_str_ipv4)
  have out: "\<not> in_network n network \<and>
        \<not> (network_address network \<le> n \<and> n \<le> broadcast_address network)"
    if "network \<in> set EXCLUDED_NETWORKS" for network
  proof -
    from valid that have "\<not> in_network n network"
      unfolding is_valid_global_ip_def excluded_loop_iff n_def by blast
    then show ?thesis
      unfolding in_network_range [OF EXCLUDED_NETWORKS_aligned [OF that]] by simp
  qed
  from parse s range out have
    "IPv4Address s = Some n \<and> s = str_ipv4 n \<and> 1 \<le> n \<and> n \<le> 0xFFFFFFFE \<and>
       (\<forall>network \<in> set EXCLUDED_NETWORKS.
           \<not> in_network n network \<and>
           \<not> (network_address network \<le> n \<and> n \<le> broadcast_address network))"
    by blast
  then show ?thesis
    using length_EXCLUDED_NETWORKS by blast
qed

text \<open>
  The claim as stated counts 15 excluded networks; the list of the source has 16.
\<close>

theorem generate_random_ip_network_count: "length EXCLUDED_NETWORKS \<noteq> 15"
  by (simp add: length_EXCLUDED_NETWORKS)


lemma generate_random_ip_return:
  "is_valid_global_ip (randint k) \<Longrightarrow>
   generate_random_ip randint k = Some (str_ipv4 (randint k), k + 1)"
  by (subst generate_random_ip.simps) simp

lemma generate_random_ip_retry:
  "\<not> is_valid_global_ip (randint k) \<Longrightarrow>
   generate_random_ip randint k = generate_random_ip randint (k + 1)"
  by (subst generate_random_ip.simps) simp

theorem generate_random_ip_global_witness:
  "generate_random_ip sample_randint 0 = Some (''8.8.8.8'', 3) \<and>
   IPv4Address ''8.8.8.8'' = Some 134744072 \<and>
   is_valid_global_ip 134744072 \<and> \<not> is_valid_global_ip 167772165 \<and>
   \<not> is_valid_global_ip 3232235777"
proof -
  have contract: "\<forall>k. 1 \<le> sample_randint k \<and> sample_randint k \<le> 0xFFFFFFFE"
    by (simp add: sample_randint_def)
  have v: "is_valid_global_ip 134744072" "\<not> is_valid_global_ip 167772165"
    "\<not> is_valid_global_ip 3232235777"
    by (simp_all add: is_valid_global_ip_def EXCLUDED_NETWORKS_eq in_network_def)
  have s8: "str_nat 8 = ''8''" by code_simp
  have str: "str_ipv4 134744072 = ''8.8.8.8''"
    by (simp add: str_ipv4_def s8)
  have "generate_random_ip sample_randint 0 = generate_random_ip sample_randint (0 + 1)"
    by (rule generate_random_ip_retry) (simp add: sample_randint_def v)
  also have "\<dots> = generate_random_ip sample_randint (0 + 1 + 1)"
    by (rule generate_random_ip_retry) (simp add: sample_randint_def v)
  also have "\<dots> = Some (str_ipv4 (sample_randint (0 + 1 + 1)), 0 + 1 + 1 + 1)"
    by (rule generate_random_ip_return) (simp add: sample_randint_def v)
  also have "\<dots> = Some (''8.8.8.8'', 3)"
    by (simp add: sample_randint_def str)
  finally have run: "generate_random_ip sample_randint 0 = Some (''8.8.8.8'', 3)" .
  from generate_random_ip_global [OF contract run]
  obtain n where "IPv4Address ''8.8.8.8'' = Some n" "''8.8.8.8'' = str_ipv4 n" by blast
  moreover have "IPv4Address ''8.8.8.8'' = Some 134744072"
    by (simp add: ip_parse_defs)
  ultimately show ?thesis using run v by simp
qed

section \<open>Properties of the target resolver\<close>

lemma make_netmask_le: "make_netmask s = Some p \<Longrightarrow> p \<le> 32"
  by (auto simp: make_netmask_def prefix_from_prefix_string_def prefix_from_ip_string_def
        prefix_from_ip_int_def find_Some_iff split: option.splits if_splits)

lemma IPv4Network_prefixlen_le: "IPv4Network s strict = Some network \<Longrightarrow> prefixlen network \<le> 32"
  by (auto simp: IPv4Network_def dest: make_netmask_le split: list.splits option.splits if_splits)

lemma network_hosts_inner:
  "prefixlen network \<le> 30 \<Longrightarrow>
   network_hosts network = [network_address network + 1 ..< broadcast_address network] \<and>
   length (network_hosts network) = 2 ^ (32 - prefixlen network) - 2"
  by (simp add: network_hosts_def broadcast_address_def)

lemma parse_part_cidr:
  assumes "CHR ''/'' \<in> set part" "\<not> startswith part ''http://''" "\<not> startswith part ''https://''"
    and "IPv4Network part False = Some network"
  shows "parse_part env part (ips, cache) =
           Some (ips @ (if prefixlen network < 16 then []
                        else map str_ipv4 (network_hosts network)), cache)"
  using assms by (simp add: parse_part_def)

lemma strip_plain:
  "s \<noteq> [] \<Longrightarrow> \<not> is_space (hd s) \<Longrightarrow> \<not> is_space (last s) \<Longrightarrow> strip s = s"
proof -
  assume s: "s \<noteq> []" "\<not> is_space (hd s)" "\<not> is_space (last s)"
  have dw: "dropWhile is_space xs = xs" if "xs \<noteq> []" "\<not> is_space (hd xs)" for xs
    using that by (cases xs) auto
  have "dropWhile is_space (rev s) = rev s"
    using s by (intro dw) (simp_all add: hd_rev)
  then show ?thesis
    using s by (simp add: strip_def dw)
qed

lemma re_split_acc_plain:
  "\<forall>c \<in> set s. \<not> is_separator c \<Longrightarrow> re_split_acc cur s = [cur @ s]"
  by (induction s arbitrary: cur) auto

lemma net24: "IPv4Network ''192.168.1.0/24'' False = Some \<lparr>network_address = 3232235776, prefixlen = 24\<rparr>"
  by (simp add: ip_parse_defs)

lemma net8: "IPv4Network ''10.0.0.0/8'' False = Some \<lparr>network_address = 167772160, prefixlen = 8\<rparr>"
  by (simp add: ip_parse_defs)

lemma single_token:
  assumes "s \<noteq> []" "\<not> is_space (hd s)" "\<not> is_space (last s)" "\<forall>c \<in> set s. \<not> is_separator c"
  shows "parse_target_ips env s = map_option fst (parse_part env s ([], Map.empty))"
  using assms
  by (simp add: parse_target_ips_def strip_plain re_split_def re_split_acc_plain
        split: option.splits)


text \<open>
  Claim C9, as amended. A token that contains a slash, does not start with \<open>http://\<close>
  or \<open>https://\<close>, and parses as an IPv4 network (not strictly: host bits are cleared)
  contributes nothing when the prefix length is below 16 and otherwise the host
  addresses of the block as \<open>hosts()\<close> lists them, which for a prefix length of 16 to 30
  are the \<open>2 ^ (32 - p) - 2\<close> addresses strictly between the network address and the
  broadcast address. In particular \<open>192.168.1.0/24\<close> yields the 254 addresses
  192.168.1.1 to 192.168.1.254, and \<open>10.0.0.0/8\<close> yields none.
\<close>

theorem parse_target_ips_cidr:
  "(CHR ''/'' \<in> set part \<and> \<not> startswith part ''http://'' \<and> \<not> startswith part ''https://''
      \<and> IPv4Network part False = Some network \<longrightarrow>
      prefixlen network \<le> 32 \<and>
      parse_part env part (ips, cache) =
        Some (ips @ (if prefixlen network < 16 then []
                     else map str_ipv4 (network_hosts network)), cache) \<and>
      (16 \<le> prefixlen network \<and> prefixlen network \<le> 30 \<longrightarrow>
         network_hosts network = [network_address network + 1 ..< broadcast_address network] \<and>
         length (network_hosts network) = 2 ^ (32 - prefixlen network) - 2)) \<and>
   parse_target_ips env ''192.168.1.0/24'' = Some (map str_ipv4 [3232235777 ..< 3232236031]) \<and>
   map_option length (parse_target_ips env ''192.168.1.0/24'') = Some 254 \<and>
   parse_target_ips env ''10.0.0.0/8'' = Some []"
proof (intro conjI impI)
  assume a: "CHR ''/'' \<in> set part \<and> \<not> startswith part ''http://'' \<and> \<not> startswith part ''https://''
      \<and> IPv4Network part False = Some network"
  then show "prefixlen network \<le> 32" by (blast dest: IPv4Network_prefixlen_le)
  from a show "parse_part env part (ips, cache) =
        Some (ips @ (if prefixlen network < 16 then []
                     else map str_ipv4 (network_hosts network)), cache)"
    by (intro parse_part_cidr) simp_all
  assume "16 \<le> prefixlen network \<and> prefixlen network \<le> 30"
  then show "network_hosts network = [network_address network + 1 ..< broadcast_address network]"
    "length (network_hosts network) = 2 ^ (32 - prefixlen network) - 2"
    using network_hosts_inner [of network] by blast+
next
  have tok24: "parse_target_ips env ''192.168.1.0/24'' =
      map_option fst (parse_part env ''192.168.1.0/24'' ([], Map.empty))"
    by (rule single_token) (simp_all add: is_space_def is_separator_def)
  have p24: "parse_part env ''192.168.1.0/24'' ([], Map.empty) =
      Some ([] @ (if prefixlen \<lparr>network_address = 3232235776, prefixlen = 24\<rparr> < 16 then []
                  else map str_ipv4
                    (network_hosts \<lparr>network_address = 3232235776, prefixlen = 24\<rparr>)), Map.empty)"
    by (rule parse_part_cidr) (simp_all add: startswith_def net24)
  show r24: "parse_target_ips env ''192.168.1.0/24'' = Some (map str_ipv4 [3232235777 ..< 3232236031])"
    unfolding tok24 p24 by (simp add: network_hosts_def broadcast_address_def)
  show "map_option length (parse_target_ips env ''192.168.1.0/24'') = Some 254"
    unfolding r24 by simp
  have tok8: "parse_target_ips env ''10.0.0.0/8'' =
      map_option fst (parse_part env ''10.0.0.0/8'' ([], Map.empty))"
    by (rule single_token) (simp_all add: is_space_def is_separator_def)
  have p8: "parse_part env ''10.0.0.0/8'' ([], Map.empty) =
      Some ([] @ (if prefixlen \<lparr>network_address = 167772160, prefixlen = 8\<rparr> < 16 then []
                  else map str_ipv4
                    (network_hosts \<lparr>network_address = 167772160, prefixlen = 8\<rparr>)), Map.empty)"
    by (rule parse_part_cidr) (simp_all add: startswith_def net8)
  show "parse_target_ips env ''10.0.0.0/8'' = Some []"
    unfolding tok8 p8 by simp
qed

text \<open>
  The claim as stated speaks of every token containing a slash. A URL contains one, is
  handled before the CIDR case, is not parsed as a network and contributes the address
  its host resolves to.
\<close>

theorem parse_target_ips_url_with_slash:
  "CHR ''/'' \<in> set ''http://8.8.8.8/'' \<and>
   IPv4Network ''http://8.8.8.8/'' False = None \<and>
   parse_target_ips sample_resolver ''http://8.8.8.8/'' = Some [''8.8.8.8'']"
proof (intro conjI)
  show "CHR ''/'' \<in> set ''http://8.8.8.8/''" by simp
  show "IPv4Network ''http://8.8.8.8/'' False = None"
    by (simp add: IPv4Network_def split_on_def)
  have "parse_target_ips sample_resolver ''http://8.8.8.8/'' =
      map_option fst (parse_part sample_resolver ''http://8.8.8.8/'' ([], Map.empty))"
    by (rule single_token) (simp_all add: is_space_def is_separator_def)
  also have "\<dots> = Some [''8.8.8.8'']"
    by (simp add: parse_part_def startswith_def sample_resolver_def resolve_hostname_def
          append_resolved_def)
  finally show "parse_target_ips sample_resolver ''http://8.8.8.8/'' = Some [''8.8.8.8'']" .
qed


theorem parse_target_ips_cidr_witness:
  "parse_part sample_resolver ''172.16.5.9/30'' ([''1.1.1.1''], Map.empty) =
     Some ([''1.1.1.1'', ''172.16.5.9'', ''172.16.5.10''], Map.empty) \<and>
   IPv4Network ''172.16.5.9/30'' False = Some \<lparr>network_address = 2886731016, prefixlen = 30\<rparr> \<and>
   parse_part sample_resolver ''172.16.0.0/12'' ([''1.1.1.1''], Map.empty) =
     Some ([''1.1.1.1''], Map.empty)"
proof -
  have n30: "IPv4Network ''172.16.5.9/30'' False = Some \<lparr>network_address = 2886731016, prefixlen = 30\<rparr>"
    by (simp add: ip_parse_defs)
  have n12: "IPv4Network ''172.16.0.0/12'' False = Some \<lparr>network_address = 2886729728, prefixlen = 12\<rparr>"
    by (simp add: ip_parse_defs)
  have strs: "str_nat 172 = ''172''" "str_nat 16 = ''16''" "str_nat 5 = ''5''"
    "str_nat 9 = ''9''" "str_nat 10 = ''10''"
    by code_simp+
  have hosts: "map str_ipv4 (network_hosts \<lparr>network_address = 2886731016, prefixlen = 30\<rparr>) =
      [''172.16.5.9'', ''172.16.5.10'']"
    by (simp add: network_hosts_def broadcast_address_def upt_rec str_ipv4_def strs)
  have h30: "CHR ''/'' \<in> set ''172.16.5.9/30'' \<and> \<not> startswith ''172.16.5.9/30'' ''http://'' \<and>
      \<not> startswith ''172.16.5.9/30'' ''https://'' \<and>
      IPv4Network ''172.16.5.9/30'' False = Some \<lparr>network_address = 2886731016, prefixlen = 30\<rparr>"
    by (simp add: startswith_def n30)
  have h12: "CHR ''/'' \<in> set ''172.16.0.0/12'' \<and> \<not> startswith ''172.16.0.0/12'' ''http://'' \<and>
      \<not> startswith ''172.16.0.0/12'' ''https://'' \<and>
      IPv4Network ''172.16.0.0/12'' False = Some \<lparr>network_address = 2886729728, prefixlen = 12\<rparr>"
    by (simp add: startswith_def n12)
  from h30 parse_target_ips_cidr
    [of "''172.16.5.9/30''" "\<lparr>network_address = 2886731016, prefixlen = 30\<rparr>" sample_resolver
        "[''1.1.1.1'']" Map.empty]
  have "parse_part sample_resolver ''172.16.5.9/30'' ([''1.1.1.1''], Map.empty) =
     Some ([''1.1.1.1''] @ (if prefixlen \<lparr>network_address = 2886731016, prefixlen = 30\<rparr> < 16 then []
        else map str_ipv4 (network_hosts \<lparr>network_address = 2886731016, prefixlen = 30\<rparr>)), Map.empty)"
    by blast
  then have r30: "parse_part sample_resolver ''172.16.5.9/30'' ([''1.1.1.1''], Map.empty) =
     Some ([''1.1.1.1'', ''172.16.5.9'', ''172.16.5.10''], Map.empty)"
    by (simp add: hosts)
  from h12 parse_target_ips_cidr
    [of "''172.16.0.0/12''" "\<lparr>network_address = 2886729728, prefixlen = 12\<rparr>" sample_resolver
        "[''1.1.1.1'']" Map.empty]
  have "parse_part sample_resolver ''172.16.0.0/12'' ([''1.1.1.1''], Map.empty) =
     Some ([''1.1.1.1''] @ (if prefixlen \<lparr>network_address = 2886729728, prefixlen = 12\<rparr> < 16 then []
        else map str_ipv4 (network_hosts \<lparr>network_address = 2886729728, prefixlen = 12\<rparr>)), Map.empty)"
    by blast
  then have r12: "parse_part sample_resolver ''172.16.0.0/12'' ([''1.1.1.1''], Map.empty) =
     Some ([''1.1.1.1''], Map.empty)"
    by simp
  from r30 n30 r12 show ?thesis by blast
qed

section \<open>Properties of the orchestrator\<close>

subsection \<open>The control endpoints\<close>

lemma valid_ports_of_set:
  "set (valid_ports_of ports) = set ports \<inter> {80, 443, 8080, 8443}"
  by (auto simp: valid_ports_of_def)

lemma valid_ports_of_idem: "valid_ports_of (valid_ports_of ports) = valid_ports_of ports"
  by (simp add: valid_ports_of_def)

lemma start_scan_running:
  "running (scan w) \<Longrightarrow> start_scan env request w = (Rejected AlreadyRunning, w)"
  by (simp add: start_scan_def)

lemma start_target_scan_running:
  "running (scan w) \<Longrightarrow> start_target_scan env resolver request w = (Rejected AlreadyRunning, w)"
  by (simp add: start_target_scan_def)

lemma start_scan_accepted:
  assumes "\<not> running (scan w)" "valid_ports_of (req_ports request) \<noteq> []"
  shows "start_scan env request w =
     (StartedRandom (valid_ports_of (req_ports request)),
      w\<lparr>scan := (reset_scan_state (scan w))\<lparr>running := True, mode := RandomMode,
                    start_time := Some (time_at env (time_reads w))\<rparr>,
        time_reads := time_reads w + 1,
        spawned := spawned w @ [RandomWorker (valid_ports_of (req_ports request))
                     (req_take_screenshots request) (req_run_vuln_check request)]\<rparr>)"
  using assms by (simp add: start_scan_def Let_def read_time_def)

lemma start_target_scan_accepted:
  assumes "\<not> running (scan w)" "parse_target_ips resolver (req_targets request) = Some target_ips"
    "target_ips \<noteq> []" "valid_ports_of (req_ports request) \<noteq> []"
    "length target_ips * length (valid_ports_of (req_ports request)) \<le> 100000"
  shows "start_target_scan env resolver request w =
     (StartedTarget (valid_ports_of (req_ports request)) (length target_ips)
        (length target_ips * length (valid_ports_of (req_ports request))),
      w\<lparr>scan := (reset_scan_state (scan w))\<lparr>running := True, mode := TargetMode,
                    start_time := Some (time_at env (time_reads w))\<rparr>,
        time_reads := time_reads w + 1,
        spawned := spawned w @ [TargetWorker target_ips (valid_ports_of (req_ports request))
                     (req_take_screenshots request) (req_run_vuln_check request)]\<rparr>)"
  using assms by (simp add: start_target_scan_def Let_def read_time_def)

lemma start_scan_no_ports:
  "\<not> running (scan w) \<Longrightarrow> valid_ports_of (req_ports request) = [] \<Longrightarrow>
   start_scan env request w = (Rejected NoValidPorts, w)"
  by (simp add: start_scan_def)

lemma start_target_scan_rejections:
  assumes "\<not> running (scan w)"
  shows "parse_target_ips resolver (req_targets request) = None \<Longrightarrow>
           start_target_scan env resolver request w = (Rejected InternalError, w)"
    and "parse_target_ips resolver (req_targets request) = Some [] \<Longrightarrow>
           start_target_scan env resolver request w = (Rejected NoTargets, w)"
    and "parse_target_ips resolver (req_targets request) = Some target_ips \<Longrightarrow>
           target_ips \<noteq> [] \<Longrightarrow> valid_ports_of (req_ports request) = [] \<Longrightarrow>
           start_target_scan env resolver request w = (Rejected NoValidPorts, w)"
    and "parse_target_ips resolver (req_targets request) = Some target_ips \<Longrightarrow>
           target_ips \<noteq> [] \<Longrightarrow> valid_ports_of (req_ports request) \<noteq> [] \<Longrightarrow>
           length target_ips * length (valid_ports_of (req_ports request)) > 100000 \<Longrightarrow>
           start_target_scan env resolver request w =
             (Rejected (TooManyTargets
                (length target_ips * length (valid_ports_of (req_ports request)))), w)"
  using assms by (simp_all add: start_target_scan_def)

lemma start_scan_started_running:
  assumes "start_scan env request w = (StartedRandom ports, w1)"
  shows "running (scan w1)"
proof (cases "running (scan w)")
  case True
  with assms show ?thesis by (simp add: start_scan_running)
next
  case idle: False
  show ?thesis
  proof (cases "valid_ports_of (req_ports request) = []")
    case True
    with assms idle show ?thesis by (simp add: start_scan_no_ports)
  next
    case False
    from start_scan_accepted [OF idle False, of env] assms show ?thesis by auto
  qed
qed

lemma start_target_scan_started_running:
  assumes "start_target_scan env resolver request w = (StartedTarget ports n t, w1)"
  shows "running (scan w1)"
proof (cases "running (scan w)")
  case True
  with assms show ?thesis by (simp add: start_target_scan_running)
next
  case idle: False
  note rej = start_target_scan_rejections [OF idle, of resolver request]
  show ?thesis
  proof (cases "parse_target_ips resolver (req_targets request)")
    case None
    with assms rej(1) show ?thesis by simp
  next
    case (Some target_ips)
    consider "target_ips = []" | "target_ips \<noteq> []" "valid_ports_of (req_ports request) = []"
      | "target_ips \<noteq> []" "valid_ports_of (req_ports request) \<noteq> []"
        "length target_ips * length (valid_ports_of (req_ports request)) > 100000"
      | "target_ips \<noteq> []" "valid_ports_of (req_ports request) \<noteq> []"
        "length target_ips * length (valid_ports_of (req_ports request)) \<le> 100000"
      by fastforce
    then show ?thesis
    proof cases
      case 1
      with assms Some rej(2) show ?thesis by simp
    next
      case 2
      with assms Some rej(3) show ?thesis by simp
    next
      case 3
      with assms Some rej(4) show ?thesis by simp
    next
      case 4
      from start_target_scan_accepted [OF idle Some 4, of env] assms show ?thesis by auto
    qed
  qed
qed

text \<open>
  Claim C4. While a scan is running, both start endpoints answer with the error
  ``already running'' and change nothing; while none is running, the stop endpoint
  answers with the error ``not running'' and changes nothing; and after a start that
  was accepted, a second start (of either kind, with any request) is rejected and leaves
  the state as the first start left it.
\<close>

theorem start_stop_conflicts:
  "(running (scan w) \<longrightarrow>
      start_scan env request w = (Rejected AlreadyRunning, w) \<and>
      start_target_scan env resolver target_request w = (Rejected AlreadyRunning, w)) \<and>
   (\<not> running (scan w) \<longrightarrow> stop_scan w = (Rejected NotRunning, w)) \<and>
   (\<forall>ports w1. start_scan env request w = (StartedRandom ports, w1) \<longrightarrow>
      start_scan env request' w1 = (Rejected AlreadyRunning, w1) \<and>
      start_target_scan env resolver target_request' w1 = (Rejected AlreadyRunning, w1)) \<and>
   (\<forall>ports n t w1.
      start_target_scan env resolver target_request w = (StartedTarget ports n t, w1) \<longrightarrow>
      start_scan env request' w1 = (Rejected AlreadyRunning, w1) \<and>
      start_target_scan env resolver target_request' w1 = (Rejected AlreadyRunning, w1))"
proof (intro conjI allI impI)
  assume "running (scan w)"
  then show "start_scan env request w = (Rejected AlreadyRunning, w)"
    "start_target_scan env resolver target_request w = (Rejected AlreadyRunning, w)"
    by (rule start_scan_running, rule start_target_scan_running)
next
  assume "\<not> running (scan w)"
  then show "stop_scan w = (Rejected NotRunning, w)" by (simp add: stop_scan_def)
next
  fix ports w1
  assume "start_scan env request w = (StartedRandom ports, w1)"
  then have "running (scan w1)" by (rule start_scan_started_running)
  then show "start_scan env request' w1 = (Rejected AlreadyRunning, w1)"
    "start_target_scan env resolver target_request' w1 = (Rejected AlreadyRunning, w1)"
    by (rule start_scan_running, rule start_target_scan_running)
next
  fix ports n t w1
  assume "start_target_scan env resolver target_request w = (StartedTarget ports n t, w1)"
  then have "running (scan w1)" by (rule start_target_scan_started_running)
  then show "start_scan env request' w1 = (Rejected AlreadyRunning, w1)"
    "start_target_scan env resolver target_request' w1 = (Rejected AlreadyRunning, w1)"
    by (rule start_scan_running, rule start_target_scan_running)
qed

theorem start_stop_conflicts_witness:
  "stop_scan idle_world = (Rejected NotRunning, idle_world) \<and>
   fst (start_scan quiet_env
          \<lparr>req_ports = [80, 443], req_take_screenshots = False, req_run_vuln_check = True\<rparr>
          idle_world) = StartedRandom [80, 443] \<and>
   start_scan quiet_env
      \<lparr>req_ports = [8080], req_take_screenshots = True, req_run_vuln_check = True\<rparr>
      (snd (start_scan quiet_env
          \<lparr>req_ports = [80, 443], req_take_screenshots = False, req_run_vuln_check = True\<rparr>
          idle_world))
     = (Rejected AlreadyRunning,
        snd (start_scan quiet_env
          \<lparr>req_ports = [80, 443], req_take_screenshots = False, req_run_vuln_check = True\<rparr>
          idle_world)) \<and>
   start_scan quiet_env
      \<lparr>req_ports = [8080], req_take_screenshots = True, req_run_vuln_check = True\<rparr>
      started_world = (Rejected AlreadyRunning, started_world)"
proof -
  let ?r1 = "\<lparr>req_ports = [80, 443], req_take_screenshots = False, req_run_vuln_check = True\<rparr>"
  let ?r2 = "\<lparr>req_ports = [8080], req_take_screenshots = True, req_run_vuln_check = True\<rparr>"
  let ?t = "\<lparr>req_ports = [80], req_take_screenshots = True, req_run_vuln_check = True,
             req_targets = ''8.8.8.8''\<rparr>"
  have idle: "\<not> running (scan idle_world)" by (simp add: idle_world_def)
  have busy: "running (scan started_world)" by (simp add: started_world_def idle_world_def)
  have ports: "valid_ports_of (req_ports ?r1) = [80, 443]" by (simp add: valid_ports_of_def)
  have first: "fst (start_scan quiet_env ?r1 idle_world) = StartedRandom [80, 443]"
    using start_scan_accepted [of idle_world ?r1 quiet_env] idle ports by simp
  then have eq: "start_scan quiet_env ?r1 idle_world =
      (StartedRandom [80, 443], snd (start_scan quiet_env ?r1 idle_world))"
    by (metis prod.collapse)
  note c4 = start_stop_conflicts [of idle_world quiet_env ?r1 sample_resolver ?t ?r2 ?t]
  note c4' = start_stop_conflicts [of started_world quiet_env ?r2 sample_resolver ?t ?r2 ?t]
  from c4 idle have "stop_scan idle_world = (Rejected NotRunning, idle_world)" by blast
  moreover from c4 eq have "start_scan quiet_env ?r2 (snd (start_scan quiet_env ?r1 idle_world))
      = (Rejected AlreadyRunning, snd (start_scan quiet_env ?r1 idle_world))" by blast
  moreover from c4' busy have "start_scan quiet_env ?r2 started_world =
      (Rejected AlreadyRunning, started_world)" by blast
  ultimately show ?thesis using first by blast
qed

lemma valid_ports_of_nil: "valid_ports_of [] = []"
  by (simp add: valid_ports_of_def)

lemma start_scan_ports_only:
  "start_scan env request w =
   start_scan env (request\<lparr>req_ports := valid_ports_of (req_ports request)\<rparr>) w"
proof (cases "running (scan w)")
  case True
  then show ?thesis by (simp add: start_scan_running)
next
  case idle: False
  show ?thesis
  proof (cases "valid_ports_of (req_ports request) = []")
    case True
    with idle show ?thesis by (simp add: start_scan_no_ports valid_ports_of_nil)
  next
    case False
    with idle show ?thesis by (simp add: start_scan_accepted valid_ports_of_idem)
  qed
qed

lemma start_target_scan_ports_only:
  "start_target_scan env resolver request w =
   start_target_scan env resolver (request\<lparr>req_ports := valid_ports_of (req_ports request)\<rparr>) w"
proof (cases "running (scan w)")
  case True
  then show ?thesis by (simp add: start_target_scan_running)
next
  case idle: False
  let ?request' = "request\<lparr>req_ports := valid_ports_of (req_ports request)\<rparr>"
  note rej = start_target_scan_rejections [OF idle, of resolver request]
  note rej' = start_target_scan_rejections [OF idle, of resolver ?request']
  show ?thesis
  proof (cases "parse_target_ips resolver (req_targets request)")
    case None
    with rej(1) [of env] rej'(1) [of env] show ?thesis by simp
  next
    case (Some target_ips)
    consider "target_ips = []" | "target_ips \<noteq> []" "valid_ports_of (req_ports request) = []"
      | "target_ips \<noteq> []" "valid_ports_of (req_ports request) \<noteq> []"
        "length target_ips * length (valid_ports_of (req_ports request)) > 100000"
      | "target_ips \<noteq> []" "valid_ports_of (req_ports request) \<noteq> []"
        "length target_ips * length (valid_ports_of (req_ports request)) \<le> 100000"
      by fastforce
    then show ?thesis
    proof cases
      case 1
      with Some rej(2) [of env] rej'(2) [of env] show ?thesis by simp
    next
      case 2
      with Some rej(3) [of target_ips env] rej'(3) [of target_ips env] show ?thesis
        by (simp add: valid_ports_of_nil)
    next
      case 3
      with Some rej(4) [of target_ips env] rej'(4) [of target_ips env] show ?thesis
        by (simp add: valid_ports_of_idem)
    next
      case 4
      with Some start_target_scan_accepted [OF idle, of resolver request target_ips env]
        start_target_scan_accepted [OF idle, of resolver ?request' target_ips env]
      show ?thesis by (simp add: valid_ports_of_idem)
    qed
  qed
qed

lemma start_scan_no_ports_iff:
  "fst (start_scan env request w) = Rejected NoValidPorts \<longleftrightarrow>
   \<not> running (scan w) \<and> valid_ports_of (req_ports request) = []"
proof (cases "running (scan w)")
  case True
  then show ?thesis by (simp add: start_scan_running)
next
  case idle: False
  show ?thesis
  proof (cases "valid_ports_of (req_ports request) = []")
    case True
    with idle show ?thesis by (simp add: start_scan_no_ports)
  next
    case False
    with idle show ?thesis by (simp add: start_scan_accepted)
  qed
qed

lemma start_target_scan_no_ports_iff:
  "fst (start_target_scan env resolver request w) = Rejected NoValidPorts \<longleftrightarrow>
   \<not> running (scan w) \<and>
   (\<exists>target_ips. parse_target_ips resolver (req_targets request) = Some target_ips \<and>
        target_ips \<noteq> []) \<and>
   valid_ports_of (req_ports request) = []"
proof (cases "running (scan w)")
  case True
  then show ?thesis by (simp add: start_target_scan_running)
next
  case idle: False
  note rej = start_target_scan_rejections [OF idle, of resolver request]
  show ?thesis
  proof (cases "parse_target_ips resolver (req_targets request)")
    case None
    with rej(1) idle show ?thesis by simp
  next
    case (Some target_ips)
    consider "target_ips = []" | "target_ips \<noteq> []" "valid_ports_of (req_ports request) = []"
      | "target_ips \<noteq> []" "valid_ports_of (req_ports request) \<noteq> []"
        "length target_ips * length (valid_ports_of (req_ports request)) > 100000"
      | "target_ips \<noteq> []" "valid_ports_of (req_ports request) \<noteq> []"
        "length target_ips * length (valid_ports_of (req_ports request)) \<le> 100000"
      by fastforce
    then show ?thesis
    proof cases
      case 1
      with Some rej(2) idle show ?thesis by simp
    next
      case 2
      with Some rej(3) idle show ?thesis by simp
    next
      case 3
      with Some rej(4) idle show ?thesis by simp
    next
      case 4
      with start_target_scan_accepted [OF idle Some 4, of env] idle show ?thesis by simp
    qed
  qed
qed

text \<open>
  Claim C10, as amended. The valid ports of a request are its ports among 80, 443, 8080
  and 8443, in the order of the request. Ports outside that set never change what a start
  endpoint does: it answers and acts as it would for the valid ports alone. The port
  check rejects a request exactly when the scanner is idle (and, for a target scan, at
  least one address was resolved) and no valid port remains. An idle scanner that finds a
  valid port (and, for a target scan, at least one resolved address and at most 100,000
  address and port pairs, counted over the valid ports) starts the worker over exactly
  the valid ports.
\<close>

theorem start_filters_ports:
  "valid_ports_of ports = filter (\<lambda>p. p = 80 \<or> p = 443 \<or> p = 8080 \<or> p = 8443) ports \<and>
   start_scan env request w =
     start_scan env (request\<lparr>req_ports := valid_ports_of (req_ports request)\<rparr>) w \<and>
   start_target_scan env resolver target_request w =
     start_target_scan env resolver
       (target_request\<lparr>req_ports := valid_ports_of (req_ports target_request)\<rparr>) w \<and>
   (fst (start_scan env request w) = Rejected NoValidPorts \<longleftrightarrow>
      \<not> running (scan w) \<and> valid_ports_of (req_ports request) = []) \<and>
   (fst (start_target_scan env resolver target_request w) = Rejected NoValidPorts \<longleftrightarrow>
      \<not> running (scan w) \<and>
      (\<exists>target_ips. parse_target_ips resolver (req_targets target_request) = Some target_ips \<and>
           target_ips \<noteq> []) \<and>
      valid_ports_of (req_ports target_request) = []) \<and>
   (\<not> running (scan w) \<and> valid_ports_of (req_ports request) \<noteq> [] \<longrightarrow>
      fst (start_scan env request w) = StartedRandom (valid_ports_of (req_ports request)) \<and>
      spawned (snd (start_scan env request w)) =
        spawned w @ [RandomWorker (valid_ports_of (req_ports request))
                       (req_take_screenshots request) (req_run_vuln_check request)]) \<and>
   (\<forall>target_ips.
      \<not> running (scan w) \<and>
      parse_target_ips resolver (req_targets target_request) = Some target_ips \<and>
      target_ips \<noteq> [] \<and> valid_ports_of (req_ports target_request) \<noteq> [] \<and>
      length target_ips * length (valid_ports_of (req_ports target_request)) \<le> 100000 \<longrightarrow>
      fst (start_target_scan env resolver target_request w) =
        StartedTarget (valid_ports_of (req_ports target_request)) (length target_ips)
          (length target_ips * length (valid_ports_of (req_ports target_request))) \<and>
      spawned (snd (start_target_scan env resolver target_request w)) =
        spawned w @ [TargetWorker target_ips (valid_ports_of (req_ports target_request))
                       (req_take_screenshots target_request)
                       (req_run_vuln_check target_request)])"
proof (intro conjI allI impI)
  show "valid_ports_of ports = filter (\<lambda>p. p = 80 \<or> p = 443 \<or> p = 8080 \<or> p = 8443) ports"
    by (simp add: valid_ports_of_def)
  show "start_scan env request w =
     start_scan env (request\<lparr>req_ports := valid_ports_of (req_ports request)\<rparr>) w"
    by (rule start_scan_ports_only)
  show "start_target_scan env resolver target_request w =
     start_target_scan env resolver
       (target_request\<lparr>req_ports := valid_ports_of (req_ports target_request)\<rparr>) w"
    by (rule start_target_scan_ports_only)
  show "fst (start_scan env request w) = Rejected NoValidPorts \<longleftrightarrow>
      \<not> running (scan w) \<and> valid_ports_of (req_ports request) = []"
    by (rule start_scan_no_ports_iff)
  show "fst (start_target_scan env resolver target_request w) = Rejected NoValidPorts \<longleftrightarrow>
      \<not> running (scan w) \<and>
      (\<exists>target_ips. parse_target_ips resolver (req_targets target_request) = Some target_ips \<and>
           target_ips \<noteq> []) \<and>
      valid_ports_of (req_ports target_request) = []"
    by (rule start_target_scan_no_ports_iff)
next
  assume a: "\<not> running (scan w) \<and> valid_ports_of (req_ports request) \<noteq> []"
  then have acc: "start_scan env request w = (StartedRandom (valid_ports_of (req_ports request)),
      w\<lparr>scan := (reset_scan_state (scan w))\<lparr>running := True, mode := RandomMode,
                    start_time := Some (time_at env (time_reads w))\<rparr>,
        time_reads := time_reads w + 1,
        spawned := spawned w @ [RandomWorker (valid_ports_of (req_ports request))
                     (req_take_screenshots request) (req_run_vuln_check request)]\<rparr>)"
    by (intro start_scan_accepted) simp_all
  show "fst (start_scan env request w) = StartedRandom (valid_ports_of (req_ports request))"
    "spawned (snd (start_scan env request w)) =
        spawned w @ [RandomWorker (valid_ports_of (req_ports request))
                       (req_take_screenshots request) (req_run_vuln_check request)]"
    unfolding acc by simp_all
next
  fix target_ips
  assume a: "\<not> running (scan w) \<and>
      parse_target_ips resolver (req_targets target_request) = Some target_ips \<and>
      target_ips \<noteq> [] \<and> valid_ports_of (req_ports target_request) \<noteq> [] \<and>
      length target_ips * length (valid_ports_of (req_ports target_request)) \<le> 100000"
  then have acc: "start_target_scan env resolver target_request w =
     (StartedTarget (valid_ports_of (req_ports target_request)) (length target_ips)
        (length target_ips * length (valid_ports_of (req_ports target_request))),
      w\<lparr>scan := (reset_scan_state (scan w))\<lparr>running := True, mode := TargetMode,
                    start_time := Some (time_at env (time_reads w))\<rparr>,
        time_reads := time_reads w + 1,
        spawned := spawned w @ [TargetWorker target_ips (valid_ports_of (req_ports target_request))
                     (req_take_screenshots target_request) (req_run_vuln_check target_request)]\<rparr>)"
    by (intro start_target_scan_accepted) simp_all
  show "fst (start_target_scan env resolver target_request w) =
        StartedTarget (valid_ports_of (req_ports target_request)) (length target_ips)
          (length target_ips * length (valid_ports_of (req_ports target_request)))"
    "spawned (snd (start_target_scan env resolver target_request w)) =
        spawned w @ [TargetWorker target_ips (valid_ports_of (req_ports target_request))
                       (req_take_screenshots target_request)
                       (req_run_vuln_check target_request)]"
    unfolding acc by simp_all
qed


lemma parse_slash16:
  "parse_target_ips env ''1.0.0.0/16'' = Some (map str_ipv4 [16777217 ..< 16842751])"
proof -
  have net: "IPv4Network ''1.0.0.0/16'' False = Some \<lparr>network_address = 16777216, prefixlen = 16\<rparr>"
    by (simp add: ip_parse_defs)
  have tok: "parse_target_ips env ''1.0.0.0/16'' =
      map_option fst (parse_part env ''1.0.0.0/16'' ([], Map.empty))"
    by (rule single_token) (simp_all add: is_space_def is_separator_def)
  have part: "parse_part env ''1.0.0.0/16'' ([], Map.empty) =
      Some ([] @ (if prefixlen \<lparr>network_address = 16777216, prefixlen = 16\<rparr> < 16 then []
                  else map str_ipv4
                    (network_hosts \<lparr>network_address = 16777216, prefixlen = 16\<rparr>)), Map.empty)"
    by (rule parse_part_cidr) (simp_all add: startswith_def net)
  show ?thesis
    unfolding tok part
    by (simp add: network_hosts_def broadcast_address_def del: upt_rec_numeral)
qed

lemma parse_single_ip:
  "parse_target_ips env ''8.8.8.8'' = Some [''8.8.8.8'']"
proof -
  have tok: "parse_target_ips env ''8.8.8.8'' =
      map_option fst (parse_part env ''8.8.8.8'' ([], Map.empty))"
    by (rule single_token) (simp_all add: is_space_def is_separator_def)
  have ip: "IPv4Address ''8.8.8.8'' = Some 134744072" by (simp add: ip_parse_defs)
  have s8: "str_nat 8 = ''8''" by code_simp
  have str: "str_ipv4 134744072 = ''8.8.8.8''" by (simp add: str_ipv4_def s8)
  show ?thesis
    unfolding tok by (simp add: parse_part_def startswith_def ip str)
qed

text \<open>
  The claim as stated has a start rejected only when no valid port remains. A target
  scan of the 65,534 hosts of a /16 is rejected with the two valid ports 80 and 443,
  since 131,068 pairs exceed the cap, and accepted with port 80 alone.
\<close>

theorem start_target_scan_over_cap:
  "start_target_scan quiet_env sample_resolver
      \<lparr>req_ports = [80, 443], req_take_screenshots = False, req_run_vuln_check = False,
       req_targets = ''1.0.0.0/16''\<rparr> idle_world
     = (Rejected (TooManyTargets 131068), idle_world) \<and>
   valid_ports_of [80, 443] = [80, 443] \<and>
   fst (start_target_scan quiet_env sample_resolver
      \<lparr>req_ports = [80], req_take_screenshots = False, req_run_vuln_check = False,
       req_targets = ''1.0.0.0/16''\<rparr> idle_world)
     = StartedTarget [80] 65534 65534"
proof -
  let ?r2 = "\<lparr>req_ports = [80, 443], req_take_screenshots = False, req_run_vuln_check = False,
       req_targets = ''1.0.0.0/16''\<rparr>"
  let ?r1 = "\<lparr>req_ports = [80], req_take_screenshots = False, req_run_vuln_check = False,
       req_targets = ''1.0.0.0/16''\<rparr>"
  let ?ips = "map str_ipv4 [16777217 ..< 16842751]"
  have idle: "\<not> running (scan idle_world)" by (simp add: idle_world_def)
  have v2: "valid_ports_of [80, 443] = [80, 443]" and v1: "valid_ports_of [80] = [80]"
    by (simp_all add: valid_ports_of_def)
  have p2: "parse_target_ips sample_resolver (req_targets ?r2) = Some ?ips"
    and p1: "parse_target_ips sample_resolver (req_targets ?r1) = Some ?ips"
    by (simp_all add: parse_slash16 del: upt_rec_numeral)
  have ne: "?ips \<noteq> []" by (simp del: upt_rec_numeral)
  have len: "length ?ips = 65534" by (simp del: upt_rec_numeral)
  have "start_target_scan quiet_env sample_resolver ?r2 idle_world =
      (Rejected (TooManyTargets (length ?ips * length (valid_ports_of (req_ports ?r2)))), idle_world)"
    by (rule start_target_scan_rejections(4) [OF idle p2 ne])
       (simp_all add: v2 len del: upt_rec_numeral)
  then have over: "start_target_scan quiet_env sample_resolver ?r2 idle_world =
      (Rejected (TooManyTargets 131068), idle_world)"
    by (simp add: v2 len del: upt_rec_numeral)
  have "fst (start_target_scan quiet_env sample_resolver ?r1 idle_world) =
      StartedTarget (valid_ports_of (req_ports ?r1)) (length ?ips)
        (length ?ips * length (valid_ports_of (req_ports ?r1)))"
    by (subst start_target_scan_accepted [OF idle p1 ne])
       (simp_all add: v1 len del: upt_rec_numeral)
  then have under: "fst (start_target_scan quiet_env sample_resolver ?r1 idle_world) =
      StartedTarget [80] 65534 65534"
    by (simp add: v1 len del: upt_rec_numeral)
  from over v2 under show ?thesis by blast
qed

theorem start_filters_ports_witness:
  "fst (start_scan quiet_env
          \<lparr>req_ports = [80, 22, 443, 99999, 80], req_take_screenshots = False,
           req_run_vuln_check = True\<rparr> idle_world) = StartedRandom [80, 443, 80] \<and>
   spawned (snd (start_scan quiet_env
          \<lparr>req_ports = [80, 22, 443, 99999, 80], req_take_screenshots = False,
           req_run_vuln_check = True\<rparr> idle_world)) = [RandomWorker [80, 443, 80] False True] \<and>
   fst (start_scan quiet_env
          \<lparr>req_ports = [22, 8081, - 80], req_take_screenshots = False,
           req_run_vuln_check = True\<rparr> idle_world) = Rejected NoValidPorts \<and>
   fst (start_target_scan quiet_env sample_resolver
          \<lparr>req_ports = [22, 8443], req_take_screenshots = True, req_run_vuln_check = False,
           req_targets = ''8.8.8.8''\<rparr> idle_world) = StartedTarget [8443] 1 1 \<and>
   spawned (snd (start_target_scan quiet_env sample_resolver
          \<lparr>req_ports = [22, 8443], req_take_screenshots = True, req_run_vuln_check = False,
           req_targets = ''8.8.8.8''\<rparr> idle_world)) = [TargetWorker [''8.8.8.8''] [8443] True False]"
proof -
  define r where "r = \<lparr>req_ports = [80, 22, 443, 99999, 80], req_take_screenshots = False,
           req_run_vuln_check = True\<rparr>"
  define bad where "bad = \<lparr>req_ports = [22, 8081, - 80], req_take_screenshots = False,
           req_run_vuln_check = True\<rparr>"
  define t where "t = \<lparr>req_ports = [22, 8443], req_take_screenshots = True,
           req_run_vuln_check = False, req_targets = ''8.8.8.8''\<rparr>"
  have idle: "\<not> running (scan idle_world)" by (simp add: idle_world_def)
  have none_spawned: "spawned idle_world = []" by (simp add: idle_world_def)
  have v: "valid_ports_of (req_ports r) = [80, 443, 80]"
    "valid_ports_of (req_ports bad) = []" "valid_ports_of (req_ports t) = [8443]"
    by (simp_all add: valid_ports_of_def r_def bad_def t_def)
  have flags: "req_take_screenshots r = False" "req_run_vuln_check r = True"
    "req_take_screenshots t = True" "req_run_vuln_check t = False"
    by (simp_all add: r_def t_def)
  have p: "parse_target_ips sample_resolver (req_targets t) = Some [''8.8.8.8'']"
    by (simp add: parse_single_ip t_def)
  note c10 = start_filters_ports [of "[]" quiet_env r idle_world sample_resolver t]
  note c10' = start_filters_ports [of "[]" quiet_env bad idle_world sample_resolver t]
  note random_ok = c10 [THEN conjunct2, THEN conjunct2, THEN conjunct2, THEN conjunct2,
      THEN conjunct2, THEN conjunct1]
  note target_ok = c10 [THEN conjunct2, THEN conjunct2, THEN conjunct2, THEN conjunct2,
      THEN conjunct2, THEN conjunct2]
  note no_ports = c10' [THEN conjunct2, THEN conjunct2, THEN conjunct2, THEN conjunct1]
  have h1: "\<not> running (scan idle_world) \<and> valid_ports_of (req_ports r) \<noteq> []"
    using idle by (simp add: v)
  have r1: "fst (start_scan quiet_env r idle_world) = StartedRandom [80, 443, 80]"
    using random_ok [rule_format, OF h1, THEN conjunct1] by (simp add: v)
  have r2: "spawned (snd (start_scan quiet_env r idle_world)) = [RandomWorker [80, 443, 80] False True]"
    using random_ok [rule_format, OF h1, THEN conjunct2]
    by (simp add: v flags none_spawned)
  have b: "fst (start_scan quiet_env bad idle_world) = Rejected NoValidPorts"
    using no_ports idle v(2) by blast
  have h2: "\<not> running (scan idle_world) \<and>
      parse_target_ips sample_resolver (req_targets t) = Some [''8.8.8.8''] \<and>
      [''8.8.8.8''] \<noteq> [] \<and> valid_ports_of (req_ports t) \<noteq> [] \<and>
      length [''8.8.8.8''] * length (valid_ports_of (req_ports t)) \<le> 100000"
    using idle p by (simp add: v)
  have t1: "fst (start_target_scan quiet_env sample_resolver t idle_world) = StartedTarget [8443] 1 1"
    using target_ok [rule_format, OF h2, THEN conjunct1] by (simp add: v)
  have t2: "spawned (snd (start_target_scan quiet_env sample_resolver t idle_world)) =
       [TargetWorker [''8.8.8.8''] [8443] True False]"
    using target_ok [rule_format, OF h2, THEN conjunct2]
    by (simp add: v flags none_spawned)
  from r1 r2 b t1 t2 show ?thesis
    unfolding r_def bad_def t_def by (intro conjI)
qed

end
